theory Spec2Isabelle
  imports Main "HOL-Library.Monad_Syntax"
begin

section \<open>Values and validation issues\<close>

text \<open>
  The values that flow through the validators are JavaScript values: the request body and
  query, the output of a parse, and the \<open>options\<close> of an enumeration issue. Numbers are the
  integral identifiers of the database rows and are modelled as \<open>int\<close>; a string is the list
  of its characters; a date carries its time value, \<open>None\<close> for an invalid date. An object
  is the list of its properties, looked up by the first entry of a key.
\<close>

datatype jsval =
    JUndefined
  | JNull
  | JBool bool
  | JNum int
  | JStr string
  | JDate "int option"
  | JArr "jsval list"
  | JObj "(string \<times> jsval) list"

datatype ZodIssueCode =
    invalid_type
  | invalid_string
  | too_small
  | too_big
  | invalid_enum_value
  | invalid_union
  | invalid_date
  | custom

text \<open>
  An issue as the schema library reports it. \<open>message = None\<close> stands for the library's
  default text of the issue code; \<open>options\<close> is present on enumeration issues only.
\<close>

datatype ZodIssue =
  ZodIssue (code: ZodIssueCode) (path: "string list") (message: "string option")
    (options: "jsval list option") (unionErrors: "ZodIssue list list")

text \<open>
  The refinement context: the issues added so far. \<open>ctx.addIssue\<close> appends one.
\<close>

type_synonym RefinementCtx = "ZodIssue list"

definition addIssue :: "RefinementCtx \<Rightarrow> ZodIssue \<Rightarrow> RefinementCtx" where
  "addIssue ctx issue = ctx @ [issue]"

section \<open>Reference data and the delegate application\<close>

record Committee =
  id' :: int
  displayname :: string
  difficulty :: string

record CommitteeCountries =
  committeeId :: int
  country :: string

record RefData =
  committees :: "Committee list"
  committeeCountries :: "CommitteeCountries list"

record DelegateApply =
  userId :: int
  motivation :: string
  experience :: string
  delegationId :: "int option"
  choice1committee :: int
  choice1country :: string
  choice2committee :: int
  choice2country :: string
  choice3committee :: int
  choice3country :: string
  shirtSize :: "string option"

text \<open>
  The parameter of \<open>refineDelegateApply\<close> is either the reference data or a function that
  fetches it; the fetch may fail, which rejects the refinement.
\<close>

datatype 'a params = Fetch "unit \<Rightarrow> string + 'a" | Given 'a

definition resolve :: "'a params \<Rightarrow> string + 'a" where
  "resolve p = (case p of Fetch f \<Rightarrow> f () | Given v \<Rightarrow> Inr v)"

definition refineDelegateApply ::
  "RefData params \<Rightarrow> DelegateApply \<Rightarrow> RefinementCtx \<Rightarrow> string + RefinementCtx" where
  "refineDelegateApply p body ctx0 =
    (case resolve p of
       Inl e \<Rightarrow> Inl e
     | Inr d \<Rightarrow>
        (let committee1valid = find (\<lambda>c. id' c = choice1committee body) (committees d);
             ctx1 = (if committee1valid = None
                     then addIssue ctx0
                       (ZodIssue invalid_enum_value [''choice1committee'']
                         (Some ''The committee with the given ID was not found'')
                         (Some (map (\<lambda>c. JNum (id' c)) (committees d))) [])
                     else ctx0);
             committee2valid = find (\<lambda>c. id' c = choice2committee body) (committees d);
             ctx2 = (if committee2valid = None
                     then addIssue ctx1
                       (ZodIssue invalid_enum_value [''choice2committee'']
                         (Some ''The committee with the given ID was not found'')
                         (Some (map (\<lambda>c. JNum (id' c)) (committees d))) [])
                     else ctx1);
             committee3valid = find (\<lambda>c. id' c = choice3committee body) (committees d);
             ctx3 = (if committee3valid = None
                     then addIssue ctx2
                       (ZodIssue invalid_enum_value [''choice3committee'']
                         (Some ''The committee with the given ID was not found'')
                         (Some (map (\<lambda>c. JNum (id' c)) (committees d))) [])
                     else ctx2);
             choice1valid = find (\<lambda>c. committeeId c = choice1committee body
                                      \<and> country c = choice1country body) (committeeCountries d);
             ctx4 = (if choice1valid = None \<and> committee1valid \<noteq> None
                     then addIssue ctx3
                       (ZodIssue invalid_enum_value [''choice1country'']
                         (Some ''Invalid country and committee combination'')
                         (Some (map (\<lambda>c. JStr (country c))
                           (filter (\<lambda>c. committeeId c = choice1committee body)
                             (committeeCountries d)))) [])
                     else ctx3);
             choice2valid = find (\<lambda>c. committeeId c = choice2committee body
                                      \<and> country c = choice2country body) (committeeCountries d);
             ctx5 = (if choice2valid = None \<and> committee2valid \<noteq> None
                     then addIssue ctx4
                       (ZodIssue invalid_enum_value [''choice2country'']
                         (Some ''Invalid country and committee combination'')
                         (Some (map (\<lambda>c. JStr (country c))
                           (filter (\<lambda>c. committeeId c = choice2committee body)
                             (committeeCountries d)))) [])
                     else ctx4);
             choice3valid = find (\<lambda>c. committeeId c = choice3committee body
                                      \<and> country c = choice3country body) (committeeCountries d);
             ctx6 = (if choice3valid = None \<and> committee3valid \<noteq> None
                     then addIssue ctx5
                       (ZodIssue invalid_enum_value [''choice3country'']
                         (Some ''Invalid country and committee combination'')
                         (Some (map (\<lambda>c. JStr (country c))
                           (filter (\<lambda>c. committeeId c = choice3committee body)
                             (committeeCountries d)))) [])
                     else ctx5)
         in Inr ctx6))"

text \<open>The issues of a report that sit on one field path.\<close>

definition issues_at :: "string list \<Rightarrow> ZodIssue list \<Rightarrow> ZodIssue list" where
  "issues_at p xs = filter (\<lambda>i. path i = p) xs"

text \<open>
  The two checks of one choice slot, in the words of the specification: the committee of
  the slot must exist in the reference data, and when it does, the pair of committee and
  country must be a row of the committee countries. Each check reports at most one issue.
\<close>

definition committee_check :: "RefData \<Rightarrow> string \<Rightarrow> int \<Rightarrow> ZodIssue list" where
  "committee_check d field cid =
     (if cid \<notin> id' ` set (committees d)
      then [ZodIssue invalid_enum_value [field]
              (Some ''The committee with the given ID was not found'')
              (Some (map (\<lambda>c. JNum (id' c)) (committees d))) []]
      else [])"

definition country_check :: "RefData \<Rightarrow> string \<Rightarrow> int \<Rightarrow> string \<Rightarrow> ZodIssue list" where
  "country_check d field cid k =
     (if cid \<in> id' ` set (committees d)
         \<and> (\<forall>r \<in> set (committeeCountries d). \<not> (committeeId r = cid \<and> country r = k))
      then [ZodIssue invalid_enum_value [field]
              (Some ''Invalid country and committee combination'')
              (Some (map (\<lambda>c. JStr (country c))
                 (filter (\<lambda>c. committeeId c = cid) (committeeCountries d)))) []]
      else [])"

section \<open>The schema library\<close>

text \<open>
  A schema parses a value found at a path and returns the issues it reports together with
  the status of the parse: aborted (\<open>INVALID\<close>), or a value that is dirty (some check
  failed) or valid. The combinators below follow the synchronous parse of the schema
  library (zod, version 3) for the constructors that the forms use.
\<close>

datatype SyncParseReturnType = INVALID | DIRTY jsval | OK jsval

type_synonym ZodType = "string list \<Rightarrow> jsval \<Rightarrow> ZodIssue list \<times> SyncParseReturnType"

datatype StringCheck =
    StrMin nat "string option"
  | StrMax nat "string option"
  | StrEmail "string \<Rightarrow> bool"

fun string_check :: "string list \<Rightarrow> string \<Rightarrow> StringCheck \<Rightarrow> ZodIssue list" where
  "string_check p s (StrMin n m) =
     (if length s < n then [ZodIssue too_small p m None []] else [])"
| "string_check p s (StrMax n m) =
     (if length s > n then [ZodIssue too_big p m None []] else [])"
| "string_check p s (StrEmail pattern) =
     (if \<not> pattern s then [ZodIssue invalid_string p None None []] else [])"

definition z_string :: "StringCheck list \<Rightarrow> ZodType" where
  "z_string checks p input =
     (case input of
        JStr s \<Rightarrow>
          (let issues = concat (map (string_check p s) checks)
           in (issues, if issues = [] then OK (JStr s) else DIRTY (JStr s)))
      | _ \<Rightarrow> ([ZodIssue invalid_type p None None []], INVALID))"

datatype NumberCheck = NumMin int "string option"

fun number_check :: "string list \<Rightarrow> int \<Rightarrow> NumberCheck \<Rightarrow> ZodIssue list" where
  "number_check p n (NumMin k m) =
     (if n < k then [ZodIssue too_small p m None []] else [])"

text \<open>
  \<open>invalid_type_error\<close> is the message of a type issue on a value that is present; a
  missing value keeps the library's default text.
\<close>

definition z_number :: "string option \<Rightarrow> NumberCheck list \<Rightarrow> ZodType" where
  "z_number invalid_type_error checks p input =
     (case input of
        JNum n \<Rightarrow>
          (let issues = concat (map (number_check p n) checks)
           in (issues, if issues = [] then OK (JNum n) else DIRTY (JNum n)))
      | JUndefined \<Rightarrow> ([ZodIssue invalid_type p None None []], INVALID)
      | _ \<Rightarrow> ([ZodIssue invalid_type p invalid_type_error None []], INVALID))"

definition z_enum :: "string list \<Rightarrow> ZodType" where
  "z_enum values p input =
     (case input of
        JStr s \<Rightarrow>
          (if s \<in> set values then ([], OK (JStr s))
           else ([ZodIssue invalid_enum_value p None (Some (map JStr values)) []], INVALID))
      | _ \<Rightarrow> ([ZodIssue invalid_type p None None []], INVALID))"

definition z_date :: ZodType where
  "z_date p input =
     (case input of
        JDate None \<Rightarrow> ([ZodIssue invalid_date p None None []], INVALID)
      | JDate (Some t) \<Rightarrow> ([], OK (JDate (Some t)))
      | _ \<Rightarrow> ([ZodIssue invalid_type p None None []], INVALID))"

definition nullable :: "ZodType \<Rightarrow> ZodType" where
  "nullable schema p input = (if input = JNull then ([], OK JNull) else schema p input)"

definition z_default :: "ZodType \<Rightarrow> (unit \<Rightarrow> jsval) \<Rightarrow> ZodType" where
  "z_default schema defaultValue p input =
     schema p (if input = JUndefined then defaultValue () else input)"

definition preprocess :: "(jsval \<Rightarrow> jsval) \<Rightarrow> ZodType \<Rightarrow> ZodType" where
  "preprocess f schema p input = schema p (f input)"

text \<open>A transform runs on a valid value only; any other result is passed on as it is.\<close>

definition transform :: "ZodType \<Rightarrow> (jsval \<Rightarrow> jsval) \<Rightarrow> ZodType" where
  "transform schema f p input =
     (case schema p input of
        (issues, OK v) \<Rightarrow> (issues, OK (f v))
      | base \<Rightarrow> base)"

text \<open>
  An issue added by a refinement gets the path of the refined value in front of its own.
\<close>

definition under :: "string list \<Rightarrow> ZodIssue \<Rightarrow> ZodIssue" where
  "under p i = ZodIssue (code i) (p @ path i) (message i) (options i) (unionErrors i)"

text \<open>
  A refinement runs unless the refined schema aborted; any issue it adds makes the
  result dirty.
\<close>

definition superRefine :: "ZodType \<Rightarrow> (jsval \<Rightarrow> RefinementCtx \<Rightarrow> RefinementCtx) \<Rightarrow> ZodType" where
  "superRefine schema refinement p input =
     (case schema p input of
        (issues, INVALID) \<Rightarrow> (issues, INVALID)
      | (issues, DIRTY v) \<Rightarrow> (issues @ map (under p) (refinement v []), DIRTY v)
      | (issues, OK v) \<Rightarrow>
          (let added = refinement v []
           in (issues @ map (under p) added, if added = [] then OK v else DIRTY v)))"

definition refine :: "ZodType \<Rightarrow> (jsval \<Rightarrow> bool) \<Rightarrow> string option \<Rightarrow> ZodType" where
  "refine schema check m =
     superRefine schema
       (\<lambda>val ctx. if \<not> check val then addIssue ctx (ZodIssue custom [] m None []) else ctx)"

text \<open>
  A union returns the first valid option; failing that the first dirty one with its
  issues; failing that one issue that collects the issues of every option.
\<close>

fun union_options ::
  "ZodType list \<Rightarrow> string list \<Rightarrow> jsval \<Rightarrow> (ZodIssue list \<times> jsval) option
     \<Rightarrow> ZodIssue list list \<Rightarrow> ZodIssue list \<times> SyncParseReturnType" where
  "union_options [] p input dirty issues =
     (case dirty of
        Some (dirty_issues, v) \<Rightarrow> (dirty_issues, DIRTY v)
      | None \<Rightarrow> ([ZodIssue invalid_union p None None issues], INVALID))"
| "union_options (option # rest) p input dirty issues =
     (case option p input of
        (child, OK v) \<Rightarrow> ([], OK v)
      | (child, DIRTY v) \<Rightarrow>
          union_options rest p input (if dirty = None then Some (child, v) else dirty)
            (if child \<noteq> [] then issues @ [child] else issues)
      | (child, INVALID) \<Rightarrow>
          union_options rest p input dirty (if child \<noteq> [] then issues @ [child] else issues))"

definition z_union :: "ZodType list \<Rightarrow> ZodType" where
  "z_union opts p input = union_options opts p input None []"

text \<open>
  An object parses every key of its shape, a missing key as \<open>undefined\<close>, and collects
  the issues of all of them; unknown keys are dropped. The result is aborted as soon as
  one key is, and dirty when one is dirty.
\<close>

definition get_prop :: "(string \<times> jsval) list \<Rightarrow> string \<Rightarrow> jsval" where
  "get_prop data key = (case map_of data key of None \<Rightarrow> JUndefined | Some v \<Rightarrow> v)"

fun jsprop :: "jsval \<Rightarrow> string \<Rightarrow> jsval" where
  "jsprop (JObj data) key = get_prop data key"
| "jsprop _ key = JUndefined"

fun mergeObjectSync ::
  "bool \<Rightarrow> (string \<times> jsval) list \<Rightarrow> (string \<times> SyncParseReturnType \<times> bool) list
     \<Rightarrow> SyncParseReturnType" where
  "mergeObjectSync dirty finalObject [] =
     (if dirty then DIRTY (JObj finalObject) else OK (JObj finalObject))"
| "mergeObjectSync dirty finalObject ((key, value, alwaysSet) # pairs) =
     (case value of
        INVALID \<Rightarrow> INVALID
      | DIRTY v \<Rightarrow>
          mergeObjectSync True
            (if v \<noteq> JUndefined \<or> alwaysSet then finalObject @ [(key, v)] else finalObject) pairs
      | OK v \<Rightarrow>
          mergeObjectSync dirty
            (if v \<noteq> JUndefined \<or> alwaysSet then finalObject @ [(key, v)] else finalObject) pairs)"

definition z_object :: "(string \<times> ZodType) list \<Rightarrow> ZodType" where
  "z_object shape p input =
     (case input of
        JObj data \<Rightarrow>
          (let results = map (\<lambda>(key, keyValidator).
                 (key, keyValidator (p @ [key]) (get_prop data key), map_of data key \<noteq> None)) shape
           in (concat (map (\<lambda>(key, (issues, value), alwaysSet). issues) results),
               mergeObjectSync False []
                 (map (\<lambda>(key, (issues, value), alwaysSet). (key, value, alwaysSet)) results)))
      | _ \<Rightarrow> ([ZodIssue invalid_type p None None []], INVALID))"

text \<open>
  The entry that one parsed key contributes to the object that \<open>mergeObjectSync\<close>
  builds: none when the key aborted, and none for an \<open>undefined\<close> value of a key that the
  input does not have.
\<close>

fun object_entry :: "string \<times> SyncParseReturnType \<times> bool \<Rightarrow> (string \<times> jsval) list" where
  "object_entry (key, INVALID, alwaysSet) = []"
| "object_entry (key, DIRTY v, alwaysSet) = (if v \<noteq> JUndefined \<or> alwaysSet then [(key, v)] else [])"
| "object_entry (key, OK v, alwaysSet) = (if v \<noteq> JUndefined \<or> alwaysSet then [(key, v)] else [])"

text \<open>
  The result of \<open>safeParse\<close>. A parse that fails without an issue is an error of the
  library, and so is a promise met while parsing synchronously.
\<close>

type_synonym ZodError = "ZodIssue list"

datatype SafeParseReturnType = Success jsval | Failure ZodError

definition handleResult :: "ZodIssue list \<times> SyncParseReturnType \<Rightarrow> string + SafeParseReturnType" where
  "handleResult r =
     (case r of
        (issues, OK v) \<Rightarrow> Inr (Success v)
      | (issues, _) \<Rightarrow>
          (if issues = [] then Inl ''Validation failed but no issues detected.''
           else Inr (Failure issues)))"

record ZodTypeAny =
  safeParse :: "jsval \<Rightarrow> string + SafeParseReturnType"
  safeParseAsync :: "jsval \<Rightarrow> string + SafeParseReturnType"

definition schema :: "ZodType \<Rightarrow> ZodTypeAny" where
  "schema z =
     \<lparr>safeParse = (\<lambda>data. handleResult (z [] data)),
      safeParseAsync = (\<lambda>data. handleResult (z [] data))\<rparr>"

text \<open>
  A schema with an asynchronous refinement on top, parsed at the root, so that the issues
  of the refinement keep their own paths. The asynchronous parse awaits the refinement,
  which may be rejected; the synchronous parse raises as soon as the refinement is
  reached, that is whenever the refined schema did not abort.
\<close>

definition superRefineAsync ::
  "ZodType \<Rightarrow> (jsval \<Rightarrow> RefinementCtx \<Rightarrow> string + RefinementCtx) \<Rightarrow> ZodTypeAny" where
  "superRefineAsync z refinement =
     \<lparr>safeParse = (\<lambda>data.
        case z [] data of
          (issues, INVALID) \<Rightarrow> handleResult (issues, INVALID)
        | _ \<Rightarrow> Inl ''Async refinement encountered during synchronous parse operation. Use .parseAsync instead.''),
      safeParseAsync = (\<lambda>data.
        case z [] data of
          (issues, INVALID) \<Rightarrow> handleResult (issues, INVALID)
        | (issues, DIRTY v) \<Rightarrow>
            (case refinement v [] of
               Inl e \<Rightarrow> Inl e
             | Inr added \<Rightarrow> handleResult (issues @ added, DIRTY v))
        | (issues, OK v) \<Rightarrow>
            (case refinement v [] of
               Inl e \<Rightarrow> Inl e
             | Inr added \<Rightarrow> handleResult (issues @ added, if added = [] then OK v else DIRTY v)))\<rparr>"

section \<open>The form schemas\<close>

text \<open>
  What the sign-up form takes from outside: the e-mail pattern of the schema library, the
  two predicates of the \<open>validator\<close> package, the current time as an ISO string, and the
  time value of a date string (\<open>None\<close> when the string is no date).
\<close>

record externals =
  emailPattern :: "string \<Rightarrow> bool"
  isMobilePhone :: "string \<Rightarrow> bool"
  isISO31661Alpha2 :: "string \<Rightarrow> bool"
  nowISOString :: string
  dateTime :: "string \<Rightarrow> int option"

fun truthy :: "jsval \<Rightarrow> bool" where
  "truthy JUndefined = False"
| "truthy JNull = False"
| "truthy (JBool b) = b"
| "truthy (JNum n) = (n \<noteq> 0)"
| "truthy (JStr s) = (s \<noteq> [])"
| "truthy _ = True"

text \<open>
  A predicate on strings applied to a value of a string schema; the schema in front of it
  lets nothing but strings through.
\<close>

fun on_string :: "(string \<Rightarrow> bool) \<Rightarrow> jsval \<Rightarrow> bool" where
  "on_string f (JStr s) = f s"
| "on_string f _ = False"

text \<open>\<open>new Date(x)\<close> on the string that the string schema in front of it let through.\<close>

fun new_Date :: "externals \<Rightarrow> jsval \<Rightarrow> jsval" where
  "new_Date ext (JStr s) = JDate (dateTime ext s)"
| "new_Date ext v = v"

definition DietaryOptions :: ZodType where
  "DietaryOptions = z_enum [''None'', ''Vegetarian'', ''Vegan'', ''Other (please specify below)'']"

definition SignupShape :: "externals \<Rightarrow> (string \<times> ZodType) list" where
  "SignupShape ext =
     [(''email'', z_string [StrEmail (emailPattern ext)]),
      (''password'', z_string [StrMin 8 (Some ''Password must be at least 8 characters'')]),
      (''passwordConfirm'', z_string []),
      (''firstname'', z_string [StrMin 1 (Some ''Please enter first name'')]),
      (''lastname'', z_string [StrMin 1 (Some ''Please enter last name'')]),
      (''phone'',
         transform
           (refine (nullable (z_string []))
              (\<lambda>phone. if truthy phone then on_string (isMobilePhone ext) phone else True)
              (Some ''Invalid phone number''))
           (\<lambda>phone. if truthy phone then phone else JNull)),
      (''birthdate'',
         z_union
           [transform (z_default (z_string []) (\<lambda>_. JStr (nowISOString ext))) (new_Date ext),
            z_date]),
      (''nationality'', refine (z_string []) (on_string (isISO31661Alpha2 ext)) None),
      (''schoolname'', nullable (z_string [])),
      (''dietary'', nullable DietaryOptions),
      (''otherInfo'', nullable (z_string [StrMax 400 None]))]"

definition SignupSchema :: "externals \<Rightarrow> ZodType" where
  "SignupSchema ext =
     superRefine (z_object (SignupShape ext))
       (\<lambda>data ctx.
          if jsprop data ''password'' \<noteq> jsprop data ''passwordConfirm''
          then addIssue ctx
                 (ZodIssue custom [''passwordConfirm''] (Some ''Passwords do not match'') None [])
          else ctx)"

definition DelegateApply :: ZodType where
  "DelegateApply =
     z_object
       [(''userId'', z_number None []),
        (''motivation'',
           z_string [StrMax 4000 (Some ''Your motivation is too long''),
                     StrMin 10 (Some ''Please enter a short motivation'')]),
        (''experience'',
           z_string [StrMax 4000 (Some ''Your experience is too long''),
                     StrMin 10 (Some ''Please enter a short experience'')]),
        (''delegationId'',
           preprocess (\<lambda>val. if val = JNum (- 1) then JNull else val)
             (nullable (z_number None []))),
        (''choice1committee'',
           z_number (Some ''Please choose a committee'')
             [NumMin 0 (Some ''Please choose a committee'')]),
        (''choice1country'', z_string [StrMin 2 (Some ''Please choose a country'')]),
        (''choice2committee'',
           z_number (Some ''Please choose a committee'')
             [NumMin 0 (Some ''Please choose a committee'')]),
        (''choice2country'', z_string [StrMin 2 (Some ''Please choose a country'')]),
        (''choice3committee'',
           z_number (Some ''Please choose a committee'')
             [NumMin 0 (Some ''Please choose a committee'')]),
        (''choice3country'', z_string [StrMin 2 (Some ''Please choose a country'')]),
        (''shirtSize'', nullable (z_enum [''XS'', ''S'', ''M'', ''L'', ''XL'', ''XXL'']))]"

text \<open>
  The refinement is written against the type inferred from the schema. A value that the
  schema did not abort has every field of that type, so the view below is defined on it.
\<close>

fun as_number :: "jsval \<Rightarrow> int option" where
  "as_number (JNum n) = Some n"
| "as_number _ = None"

fun as_string :: "jsval \<Rightarrow> string option" where
  "as_string (JStr s) = Some s"
| "as_string _ = None"

fun as_nullable :: "(jsval \<Rightarrow> 'a option) \<Rightarrow> jsval \<Rightarrow> 'a option option" where
  "as_nullable f JNull = Some None"
| "as_nullable f v = map_option Some (f v)"

definition as_DelegateApply :: "jsval \<Rightarrow> DelegateApply option" where
  "as_DelegateApply v = do {
     u \<leftarrow> as_number (jsprop v ''userId'');
     m \<leftarrow> as_string (jsprop v ''motivation'');
     e \<leftarrow> as_string (jsprop v ''experience'');
     d \<leftarrow> as_nullable as_number (jsprop v ''delegationId'');
     c1 \<leftarrow> as_number (jsprop v ''choice1committee'');
     k1 \<leftarrow> as_string (jsprop v ''choice1country'');
     c2 \<leftarrow> as_number (jsprop v ''choice2committee'');
     k2 \<leftarrow> as_string (jsprop v ''choice2country'');
     c3 \<leftarrow> as_number (jsprop v ''choice3committee'');
     k3 \<leftarrow> as_string (jsprop v ''choice3country'');
     s \<leftarrow> as_nullable as_string (jsprop v ''shirtSize'');
     Some \<lparr>userId = u, motivation = m, experience = e, delegationId = d,
           choice1committee = c1, choice1country = k1,
           choice2committee = c2, choice2country = k2,
           choice3committee = c3, choice3country = k3,
           shirtSize = s\<rparr>
   }"

text \<open>
  The schema of the application page:
  \<open>DelegateApply.superRefine(refineDelegateApply(params))\<close>.
\<close>

definition DelegateApply_refined :: "RefData params \<Rightarrow> ZodTypeAny" where
  "DelegateApply_refined p =
     superRefineAsync DelegateApply
       (\<lambda>v ctx. case as_DelegateApply v of
                  None \<Rightarrow> Inl ''TypeError''
                | Some body \<Rightarrow> refineDelegateApply p body ctx)"

section \<open>The request validator\<close>

text \<open>
  The options object as the routes pass it. \<open>validate\<close> reads the two schemas; the
  \<open>async\<close> property that the delegate-application route sets is not read.
\<close>

record ValidateOptions =
  body_schema :: "ZodTypeAny option"
  query_schema :: "ZodTypeAny option"
  async :: bool

record NextApiRequest =
  body :: jsval
  query :: jsval

record ErrorBody =
  statusCode :: nat
  message' :: string
  description :: "ZodError list"

text \<open>
  What the middleware does with a request: it answers with a status and a JSON body, or
  it calls \<open>next\<close>, which hands the request to the handlers downstream.
\<close>

datatype outcome = Responded nat ErrorBody | Next NextApiRequest

text \<open>
  The block that the middleware runs for the body and then for the query: when the schema
  is given, the part is parsed and the error of a failed parse is pushed onto \<open>errors\<close>.
  A parse that raises ends the middleware with the exception.
\<close>

definition parse_part ::
  "ZodTypeAny option \<Rightarrow> jsval \<Rightarrow> ZodError list \<Rightarrow> string + ZodError list" where
  "parse_part part input errors =
     (case part of
        None \<Rightarrow> Inr errors
      | Some s \<Rightarrow>
          (case safeParse s input of
             Inl e \<Rightarrow> Inl e
           | Inr (Failure err) \<Rightarrow> Inr (errors @ [err])
           | Inr (Success _) \<Rightarrow> Inr errors))"

definition validate :: "ValidateOptions \<Rightarrow> NextApiRequest \<Rightarrow> string + outcome" where
  "validate opts req =
     (case parse_part (body_schema opts) (body req) [] of
        Inl e \<Rightarrow> Inl e
      | Inr errors1 \<Rightarrow>
          (case parse_part (query_schema opts) (query req) errors1 of
             Inl e \<Rightarrow> Inl e
           | Inr errors \<Rightarrow>
               (if length errors \<noteq> 0
                then Inr (Responded 422
                       \<lparr>statusCode = 422, message' = ''Bad Request'', description = errors\<rparr>)
                else Inr (Next req))))"

text \<open>
  The error reports of the failed parts, in the words of the specification: one report
  for the body if its parse failed, then one for the query if its parse failed.
\<close>

fun failed_report :: "(string + SafeParseReturnType) option \<Rightarrow> ZodError list" where
  "failed_report (Some (Inr (Failure err))) = [err]"
| "failed_report _ = []"

section \<open>Sample data\<close>

definition demo_refdata :: RefData where
  "demo_refdata =
     \<lparr>committees =
        [\<lparr>id' = 1, displayname = ''Security Council'', difficulty = ''Advanced''\<rparr>,
         \<lparr>id' = 2, displayname = ''Human Rights Council'', difficulty = ''Beginner''\<rparr>],
      committeeCountries =
        [\<lparr>committeeId = 2, country = ''US''\<rparr>,
         \<lparr>committeeId = 1, country = ''DE''\<rparr>,
         \<lparr>committeeId = 2, country = ''FR''\<rparr>]\<rparr>"

definition demo_body :: "int \<Rightarrow> string \<Rightarrow> int \<Rightarrow> string \<Rightarrow> int \<Rightarrow> string \<Rightarrow> DelegateApply" where
  "demo_body c1 k1 c2 k2 c3 k3 =
     \<lparr>userId = 7, motivation = ''I want to debate.'', experience = ''Two conferences.'',
      delegationId = None,
      choice1committee = c1, choice1country = k1,
      choice2committee = c2, choice2country = k2,
      choice3committee = c3, choice3country = k3,
      shirtSize = Some ''M''\<rparr>"

definition demo_application :: "jsval \<Rightarrow> int \<Rightarrow> string \<Rightarrow> int \<Rightarrow> string \<Rightarrow> int \<Rightarrow> string \<Rightarrow> jsval" where
  "demo_application deleg c1 k1 c2 k2 c3 k3 =
     JObj [(''userId'', JNum 7),
           (''motivation'', JStr ''I want to debate.''),
           (''experience'', JStr ''Two conferences.''),
           (''delegationId'', deleg),
           (''choice1committee'', JNum c1), (''choice1country'', JStr k1),
           (''choice2committee'', JNum c2), (''choice2country'', JStr k2),
           (''choice3committee'', JNum c3), (''choice3country'', JStr k3),
           (''shirtSize'', JStr ''M'')]"

definition demo_ext :: externals where
  "demo_ext =
     \<lparr>emailPattern = (\<lambda>s. CHR ''@'' \<in> set s),
      isMobilePhone = (\<lambda>s. s = ''+420123456789''),
      isISO31661Alpha2 = (\<lambda>s. s \<in> set [''CZ'', ''US'', ''FR'']),
      nowISOString = ''2023-01-26T00:00:00.000Z'',
      dateTime = (\<lambda>s. if s = ''2023-01-26T00:00:00.000Z'' then Some 1674691200000 else None)\<rparr>"

definition demo_signup :: "string \<Rightarrow> string \<Rightarrow> jsval \<Rightarrow> (string \<times> jsval) list" where
  "demo_signup pw pc phone =
     [(''email'', JStr ''ada@example.org''),
      (''password'', JStr pw),
      (''passwordConfirm'', JStr pc),
      (''firstname'', JStr ''Ada''),
      (''lastname'', JStr ''Lovelace''),
      (''phone'', phone),
      (''nationality'', JStr ''CZ''),
      (''schoolname'', JNull),
      (''dietary'', JStr ''Vegan''),
      (''otherInfo'', JNull)]"

definition demo_query :: ZodType where
  "demo_query = z_object [(''page'', z_number None [])]"

definition demo_request :: NextApiRequest where
  "demo_request =
     \<lparr>body = demo_application (JNum (- 1)) 2 ''US'' 1 ''DE'' 2 ''FR'', query = JObj []\<rparr>"

section \<open>Properties of the refinement\<close>

lemma find_None_committee:
  "(find (\<lambda>c. id' c = n) cs = None) = (n \<notin> id' ` set cs)"
  by (auto simp: find_None_iff)

lemma find_Some_committee:
  "(\<exists>y. find (\<lambda>c. id' c = n) cs = Some y) = (n \<in> id' ` set cs)"
  using find_None_committee [of n cs] by auto

lemma find_None_pair:
  "(find (\<lambda>c. committeeId c = n \<and> country c = k) rs = None)
     = (\<forall>r \<in> set rs. \<not> (committeeId r = n \<and> country r = k))"
  by (auto simp: find_None_iff)

lemma addIssue_if:
  "(if c then addIssue ctx i else ctx) = ctx @ (if c then [i] else [])"
  by (simp add: addIssue_def)

text \<open>
  The refinement appends to the context the result of the six checks: the committee
  checks of the three slots, then their country checks.
\<close>

lemma refineDelegateApply_checks:
  assumes "resolve p = Inr d"
  shows "refineDelegateApply p b ctx = Inr (ctx
      @ committee_check d ''choice1committee'' (choice1committee b)
      @ committee_check d ''choice2committee'' (choice2committee b)
      @ committee_check d ''choice3committee'' (choice3committee b)
      @ country_check d ''choice1country'' (choice1committee b) (choice1country b)
      @ country_check d ''choice2country'' (choice2committee b) (choice2country b)
      @ country_check d ''choice3country'' (choice3committee b) (choice3country b))"
  using assms
  by (simp add: refineDelegateApply_def Let_def addIssue_if committee_check_def
      country_check_def find_None_committee find_Some_committee find_None_pair conj_commute
      split del: if_split cong: if_cong)

lemma issues_at_append: "issues_at p (xs @ ys) = issues_at p xs @ issues_at p ys"
  by (simp add: issues_at_def)

lemma issues_at_committee_check:
  "issues_at p (committee_check d f c) = (if p = [f] then committee_check d f c else [])"
  by (simp add: issues_at_def committee_check_def)

lemma issues_at_country_check:
  "issues_at p (country_check d f c k) = (if p = [f] then country_check d f c k else [])"
  by (simp add: issues_at_def country_check_def)

lemmas issues_at_checks = issues_at_append issues_at_committee_check issues_at_country_check

lemma resolve_Given: "resolve (Given d) = Inr d"
  by (simp add: resolve_def)

text \<open>
  Claim C1. Whatever the body and the reference data, when the committee of a choice slot
  is not among the committees of the reference data, the refinement adds exactly one issue
  on the \<open>choiceNcommittee\<close> path of that slot, with the ids of all committees as its
  options, and no issue on the \<open>choiceNcountry\<close> path of that slot, whether or not the
  country matches a committee-country row.
\<close>

theorem missing_committee_one_issue_no_country_issue:
  assumes "resolve p = Inr d"
  shows "\<exists>added. refineDelegateApply p b ctx = Inr (ctx @ added)
    \<and> (choice1committee b \<notin> id' ` set (committees d) \<longrightarrow>
         issues_at [''choice1committee''] added =
           [ZodIssue invalid_enum_value [''choice1committee'']
              (Some ''The committee with the given ID was not found'')
              (Some (map (\<lambda>c. JNum (id' c)) (committees d))) []]
         \<and> issues_at [''choice1country''] added = [])
    \<and> (choice2committee b \<notin> id' ` set (committees d) \<longrightarrow>
         issues_at [''choice2committee''] added =
           [ZodIssue invalid_enum_value [''choice2committee'']
              (Some ''The committee with the given ID was not found'')
              (Some (map (\<lambda>c. JNum (id' c)) (committees d))) []]
         \<and> issues_at [''choice2country''] added = [])
    \<and> (choice3committee b \<notin> id' ` set (committees d) \<longrightarrow>
         issues_at [''choice3committee''] added =
           [ZodIssue invalid_enum_value [''choice3committee'']
              (Some ''The committee with the given ID was not found'')
              (Some (map (\<lambda>c. JNum (id' c)) (committees d))) []]
         \<and> issues_at [''choice3country''] added = [])"
proof (intro exI conjI)
  show "refineDelegateApply p b ctx = Inr (ctx
      @ (committee_check d ''choice1committee'' (choice1committee b)
      @ committee_check d ''choice2committee'' (choice2committee b)
      @ committee_check d ''choice3committee'' (choice3committee b)
      @ country_check d ''choice1country'' (choice1committee b) (choice1country b)
      @ country_check d ''choice2country'' (choice2committee b) (choice2country b)
      @ country_check d ''choice3country'' (choice3committee b) (choice3country b)))"
    using refineDelegateApply_checks [OF assms] by simp
qed (simp_all add: issues_at_checks, simp_all add: committee_check_def country_check_def)

theorem missing_committee_one_issue_no_country_issue_witness:
  "resolve (Given demo_refdata) = Inr demo_refdata
   \<and> choice1committee (demo_body 5 ''ZZ'' 2 ''US'' 1 ''DE'') \<notin> id' ` set (committees demo_refdata)
   \<and> (\<exists>added. refineDelegateApply (Given demo_refdata) (demo_body 5 ''ZZ'' 2 ''US'' 1 ''DE'') []
          = Inr ([] @ added)
        \<and> issues_at [''choice1committee''] added =
           [ZodIssue invalid_enum_value [''choice1committee'']
              (Some ''The committee with the given ID was not found'')
              (Some [JNum 1, JNum 2]) []]
        \<and> issues_at [''choice1country''] added = [])"
proof -
  have a: "choice1committee (demo_body 5 ''ZZ'' 2 ''US'' 1 ''DE'') \<notin> id' ` set (committees demo_refdata)"
    by (simp add: demo_body_def demo_refdata_def)
  have m: "map (\<lambda>c. JNum (id' c)) (committees demo_refdata) = [JNum 1, JNum 2]"
    by (simp add: demo_refdata_def)
  from missing_committee_one_issue_no_country_issue
    [OF resolve_Given, of demo_refdata "demo_body 5 ''ZZ'' 2 ''US'' 1 ''DE''" "[]"]
  obtain added where
    "refineDelegateApply (Given demo_refdata) (demo_body 5 ''ZZ'' 2 ''US'' 1 ''DE'') [] = Inr ([] @ added)"
    "choice1committee (demo_body 5 ''ZZ'' 2 ''US'' 1 ''DE'') \<notin> id' ` set (committees demo_refdata) \<longrightarrow>
         issues_at [''choice1committee''] added =
           [ZodIssue invalid_enum_value [''choice1committee'']
              (Some ''The committee with the given ID was not found'')
              (Some (map (\<lambda>c. JNum (id' c)) (committees demo_refdata))) []]
         \<and> issues_at [''choice1country''] added = []"
    by blast
  with resolve_Given [of demo_refdata] a m show ?thesis by auto
qed

text \<open>
  Claim C5. Whatever the body and the reference data, when the committee of a choice slot
  exists in the reference data but no committee-country row has that committee and the
  submitted country, the refinement adds on the \<open>choiceNcountry\<close> path of that slot one
  issue whose options are exactly the countries of the rows of that committee, in the order
  of the rows. The witness is the example of the specification: committee 2 with the
  countries US and FR, and the submitted country ZZ.
\<close>

theorem valid_committee_bad_country_lists_committee_countries:
  assumes "resolve p = Inr d"
  shows "\<exists>added. refineDelegateApply p b ctx = Inr (ctx @ added)
    \<and> (choice1committee b \<in> id' ` set (committees d)
         \<and> (\<forall>r \<in> set (committeeCountries d).
               \<not> (committeeId r = choice1committee b \<and> country r = choice1country b)) \<longrightarrow>
         issues_at [''choice1country''] added =
           [ZodIssue invalid_enum_value [''choice1country'']
              (Some ''Invalid country and committee combination'')
              (Some (map (\<lambda>c. JStr (country c))
                 (filter (\<lambda>c. committeeId c = choice1committee b) (committeeCountries d)))) []])
    \<and> (choice2committee b \<in> id' ` set (committees d)
         \<and> (\<forall>r \<in> set (committeeCountries d).
               \<not> (committeeId r = choice2committee b \<and> country r = choice2country b)) \<longrightarrow>
         issues_at [''choice2country''] added =
           [ZodIssue invalid_enum_value [''choice2country'']
              (Some ''Invalid country and committee combination'')
              (Some (map (\<lambda>c. JStr (country c))
                 (filter (\<lambda>c. committeeId c = choice2committee b) (committeeCountries d)))) []])
    \<and> (choice3committee b \<in> id' ` set (committees d)
         \<and> (\<forall>r \<in> set (committeeCountries d).
               \<not> (committeeId r = choice3committee b \<and> country r = choice3country b)) \<longrightarrow>
         issues_at [''choice3country''] added =
           [ZodIssue invalid_enum_value [''choice3country'']
              (Some ''Invalid country and committee combination'')
              (Some (map (\<lambda>c. JStr (country c))
                 (filter (\<lambda>c. committeeId c = choice3committee b) (committeeCountries d)))) []])"
proof (intro exI conjI)
  show "refineDelegateApply p b ctx = Inr (ctx
      @ (committee_check d ''choice1committee'' (choice1committee b)
      @ committee_check d ''choice2committee'' (choice2committee b)
      @ committee_check d ''choice3committee'' (choice3committee b)
      @ country_check d ''choice1country'' (choice1committee b) (choice1country b)
      @ country_check d ''choice2country'' (choice2committee b) (choice2country b)
      @ country_check d ''choice3country'' (choice3committee b) (choice3country b)))"
    using refineDelegateApply_checks [OF assms] by simp
qed (simp_all add: issues_at_checks, simp_all add: country_check_def)

theorem valid_committee_bad_country_lists_committee_countries_witness:
  "resolve (Given demo_refdata) = Inr demo_refdata
   \<and> choice1committee (demo_body 2 ''ZZ'' 2 ''US'' 1 ''DE'') \<in> id' ` set (committees demo_refdata)
   \<and> (choice1committee (demo_body 2 ''ZZ'' 2 ''US'' 1 ''DE''),
        choice1country (demo_body 2 ''ZZ'' 2 ''US'' 1 ''DE''))
         \<notin> set (map (\<lambda>r. (committeeId r, country r)) (committeeCountries demo_refdata))
   \<and> (\<exists>added. refineDelegateApply (Given demo_refdata) (demo_body 2 ''ZZ'' 2 ''US'' 1 ''DE'') []
          = Inr ([] @ added)
        \<and> issues_at [''choice1country''] added =
           [ZodIssue invalid_enum_value [''choice1country'']
              (Some ''Invalid country and committee combination'')
              (Some [JStr ''US'', JStr ''FR'']) []])"
proof -
  let ?b = "demo_body 2 ''ZZ'' 2 ''US'' 1 ''DE''"
  have a: "choice1committee ?b \<in> id' ` set (committees demo_refdata)"
    by (simp add: demo_body_def demo_refdata_def)
  have n: "\<forall>r \<in> set (committeeCountries demo_refdata).
         \<not> (committeeId r = choice1committee ?b \<and> country r = choice1country ?b)"
    by (simp add: demo_body_def demo_refdata_def)
  have m: "map (\<lambda>c. JStr (country c))
             (filter (\<lambda>c. committeeId c = choice1committee ?b) (committeeCountries demo_refdata))
           = [JStr ''US'', JStr ''FR'']"
    by (simp add: demo_body_def demo_refdata_def)
  from valid_committee_bad_country_lists_committee_countries
    [OF resolve_Given, of demo_refdata ?b "[]"]
  obtain added where
    "refineDelegateApply (Given demo_refdata) ?b [] = Inr ([] @ added)"
    "choice1committee ?b \<in> id' ` set (committees demo_refdata)
         \<and> (\<forall>r \<in> set (committeeCountries demo_refdata).
               \<not> (committeeId r = choice1committee ?b \<and> country r = choice1country ?b)) \<longrightarrow>
         issues_at [''choice1country''] added =
           [ZodIssue invalid_enum_value [''choice1country'']
              (Some ''Invalid country and committee combination'')
              (Some (map (\<lambda>c. JStr (country c))
                 (filter (\<lambda>c. committeeId c = choice1committee ?b) (committeeCountries demo_refdata)))) []]"
    by blast
  moreover have "(choice1committee ?b, choice1country ?b)
         \<notin> set (map (\<lambda>r. (committeeId r, country r)) (committeeCountries demo_refdata))"
    by (simp add: demo_body_def demo_refdata_def)
  ultimately show ?thesis using resolve_Given [of demo_refdata] a n m by auto
qed

text \<open>
  Claim C6. The committee check and the country check run for each of the three choice
  slots, whatever the other slots give, and the issues of all six checks are appended to
  one report: no check is skipped after an earlier one failed. When the three committees
  are all missing from the reference data, the report of the refinement is one issue for
  each of \<open>choice1committee\<close>, \<open>choice2committee\<close> and \<open>choice3committee\<close>.
\<close>

theorem all_slots_checked_and_aggregated:
  assumes "resolve p = Inr d"
  shows "refineDelegateApply p b ctx = Inr (ctx
      @ committee_check d ''choice1committee'' (choice1committee b)
      @ committee_check d ''choice2committee'' (choice2committee b)
      @ committee_check d ''choice3committee'' (choice3committee b)
      @ country_check d ''choice1country'' (choice1committee b) (choice1country b)
      @ country_check d ''choice2country'' (choice2committee b) (choice2country b)
      @ country_check d ''choice3country'' (choice3committee b) (choice3country b))
    \<and> (choice1committee b \<notin> id' ` set (committees d)
         \<and> choice2committee b \<notin> id' ` set (committees d)
         \<and> choice3committee b \<notin> id' ` set (committees d) \<longrightarrow>
       (\<exists>report. refineDelegateApply p b [] = Inr report
          \<and> map path report = [[''choice1committee''], [''choice2committee''], [''choice3committee'']]))"
  using refineDelegateApply_checks [OF assms, of b ctx] refineDelegateApply_checks [OF assms, of b "[]"]
  by (simp add: committee_check_def country_check_def)

theorem all_slots_checked_and_aggregated_witness:
  "resolve (Given demo_refdata) = Inr demo_refdata
   \<and> choice1committee (demo_body 5 ''ZZ'' 6 ''US'' 7 ''DE'') \<notin> id' ` set (committees demo_refdata)
   \<and> choice2committee (demo_body 5 ''ZZ'' 6 ''US'' 7 ''DE'') \<notin> id' ` set (committees demo_refdata)
   \<and> choice3committee (demo_body 5 ''ZZ'' 6 ''US'' 7 ''DE'') \<notin> id' ` set (committees demo_refdata)
   \<and> (\<exists>report. refineDelegateApply (Given demo_refdata) (demo_body 5 ''ZZ'' 6 ''US'' 7 ''DE'') [] = Inr report
          \<and> map path report = [[''choice1committee''], [''choice2committee''], [''choice3committee'']])"
proof -
  let ?b = "demo_body 5 ''ZZ'' 6 ''US'' 7 ''DE''"
  have a: "choice1committee ?b \<notin> id' ` set (committees demo_refdata)"
      "choice2committee ?b \<notin> id' ` set (committees demo_refdata)"
      "choice3committee ?b \<notin> id' ` set (committees demo_refdata)"
    by (simp_all add: demo_body_def demo_refdata_def)
  from all_slots_checked_and_aggregated [OF resolve_Given, of demo_refdata ?b "[]"] a
  have "\<exists>report. refineDelegateApply (Given demo_refdata) ?b [] = Inr report
          \<and> map path report = [[''choice1committee''], [''choice2committee''], [''choice3committee'']]"
    by blast
  with resolve_Given [of demo_refdata] a show ?thesis by blast
qed

section \<open>Properties of the request validator\<close>

lemma DelegateApply_demo:
  "DelegateApply [] (demo_application (JNum (- 1)) 2 ''US'' 1 ''DE'' 2 ''FR'')
     = ([], OK (demo_application JNull 2 ''US'' 1 ''DE'' 2 ''FR''))"
  by code_simp

lemma demo_query_missing_page:
  "demo_query [] (JObj []) = ([ZodIssue invalid_type [''page''] None None []], INVALID)"
  by (simp add: demo_query_def z_object_def z_number_def get_prop_def)

lemma as_DelegateApply_demo:
  "as_DelegateApply (demo_application JNull 2 ''US'' 1 ''DE'' 2 ''FR'')
     = Some (demo_body 2 ''US'' 1 ''DE'' 2 ''FR'')"
  by (simp add: as_DelegateApply_def demo_application_def demo_body_def get_prop_def)

lemma refine_demo:
  "refineDelegateApply (Given demo_refdata) (demo_body 2 ''US'' 1 ''DE'' 2 ''FR'') [] = Inr []"
  by (simp add: refineDelegateApply_checks [OF resolve_Given] committee_check_def
      country_check_def demo_refdata_def demo_body_def)

lemma parse_part_report:
  assumes "\<forall>s. part = Some s \<longrightarrow> (\<exists>r. safeParse s input = Inr r)"
  shows "parse_part part input errors
     = Inr (errors @ failed_report (map_option (\<lambda>s. safeParse s input) part))"
proof (cases part)
  case None
  then show ?thesis by (simp add: parse_part_def)
next
  case (Some s)
  with assms obtain r where r: "safeParse s input = Inr r" by blast
  show ?thesis using Some r by (cases r) (simp_all add: parse_part_def)
qed

text \<open>
  Claim C2. For every request and every choice of a body schema and a query schema, each
  of which may be absent, provided the synchronous parse of each supplied schema returns a
  result: the validator parses the body and the query each on its own, and collects the
  error of the body (if its parse failed) and then the error of the query (if its parse
  failed) before it answers. When that list is not empty it answers with status 422 and
  the JSON object with \<open>statusCode\<close> 422, \<open>message\<close> "Bad Request" and the list as
  \<open>description\<close>; otherwise it calls \<open>next\<close>. In particular a valid body with an invalid
  query gives a description that holds the error of the query only, and an invalid body
  with an invalid query gives both errors.
\<close>

theorem validate_reports_failed_parts:
  assumes "\<forall>s. body_schema opts = Some s \<longrightarrow> (\<exists>r. safeParse s (body req) = Inr r)"
    and "\<forall>s. query_schema opts = Some s \<longrightarrow> (\<exists>r. safeParse s (query req) = Inr r)"
  shows "validate opts req =
     (let errors = failed_report (map_option (\<lambda>s. safeParse s (body req)) (body_schema opts))
                 @ failed_report (map_option (\<lambda>s. safeParse s (query req)) (query_schema opts))
      in if errors = [] then Inr (Next req)
         else Inr (Responded 422
                \<lparr>statusCode = 422, message' = ''Bad Request'', description = errors\<rparr>))
    \<and> (\<forall>sb sq v eq. body_schema opts = Some sb \<and> safeParse sb (body req) = Inr (Success v)
          \<and> query_schema opts = Some sq \<and> safeParse sq (query req) = Inr (Failure eq) \<longrightarrow>
        validate opts req = Inr (Responded 422
          \<lparr>statusCode = 422, message' = ''Bad Request'', description = [eq]\<rparr>))
    \<and> (\<forall>sb sq eb eq. body_schema opts = Some sb \<and> safeParse sb (body req) = Inr (Failure eb)
          \<and> query_schema opts = Some sq \<and> safeParse sq (query req) = Inr (Failure eq) \<longrightarrow>
        validate opts req = Inr (Responded 422
          \<lparr>statusCode = 422, message' = ''Bad Request'', description = [eb, eq]\<rparr>))"
proof -
  have v: "validate opts req =
     (let errors = failed_report (map_option (\<lambda>s. safeParse s (body req)) (body_schema opts))
                 @ failed_report (map_option (\<lambda>s. safeParse s (query req)) (query_schema opts))
      in if errors = [] then Inr (Next req)
         else Inr (Responded 422
                \<lparr>statusCode = 422, message' = ''Bad Request'', description = errors\<rparr>))"
    by (simp add: validate_def parse_part_report [OF assms(1)] parse_part_report [OF assms(2)]
        Let_def)
  show ?thesis
  proof (intro conjI allI impI)
    show "validate opts req =
     (let errors = failed_report (map_option (\<lambda>s. safeParse s (body req)) (body_schema opts))
                 @ failed_report (map_option (\<lambda>s. safeParse s (query req)) (query_schema opts))
      in if errors = [] then Inr (Next req)
         else Inr (Responded 422
                \<lparr>statusCode = 422, message' = ''Bad Request'', description = errors\<rparr>))"
      by (rule v)
  qed (simp_all add: v)
qed

theorem validate_reports_failed_parts_witness:
  "safeParse (schema DelegateApply) (body demo_request)
      = Inr (Success (demo_application JNull 2 ''US'' 1 ''DE'' 2 ''FR''))
   \<and> safeParse (schema demo_query) (query demo_request)
      = Inr (Failure [ZodIssue invalid_type [''page''] None None []])
   \<and> validate \<lparr>body_schema = Some (schema DelegateApply),
                query_schema = Some (schema demo_query), async = False\<rparr> demo_request
      = Inr (Responded 422
          \<lparr>statusCode = 422, message' = ''Bad Request'',
           description = [[ZodIssue invalid_type [''page''] None None []]]\<rparr>)"
proof -
  let ?opts = "\<lparr>body_schema = Some (schema DelegateApply),
                query_schema = Some (schema demo_query), async = False\<rparr>"
  have b: "safeParse (schema DelegateApply) (body demo_request)
      = Inr (Success (demo_application JNull 2 ''US'' 1 ''DE'' 2 ''FR''))"
    by (simp add: schema_def handleResult_def demo_request_def DelegateApply_demo)
  have q: "safeParse (schema demo_query) (query demo_request)
      = Inr (Failure [ZodIssue invalid_type [''page''] None None []])"
    by (simp add: schema_def handleResult_def demo_request_def demo_query_missing_page)
  have hb: "\<forall>s. body_schema ?opts = Some s \<longrightarrow> (\<exists>r. safeParse s (body demo_request) = Inr r)"
    using b by simp
  have hq: "\<forall>s. query_schema ?opts = Some s \<longrightarrow> (\<exists>r. safeParse s (query demo_request) = Inr r)"
    using q by simp
  from validate_reports_failed_parts [OF hb hq] b q
  have "validate ?opts demo_request = Inr (Responded 422
          \<lparr>statusCode = 422, message' = ''Bad Request'',
           description = [[ZodIssue invalid_type [''page''] None None []]]\<rparr>)"
    by simp
  with b q show ?thesis by simp
qed

text \<open>
  Claim C3 says that after a successful validation the parsed value replaces the raw body
  that the handlers downstream see. The schema of the delegate application turns the
  delegation id \<open>-1\<close> into \<open>null\<close>, and the handler of the route takes the body of the
  request as that parsed application. The validator calls \<open>next\<close> but never writes the
  parsed value back: on the sample application the parse gives \<open>null\<close> for the delegation
  id, and the request that goes downstream still has \<open>-1\<close>.
\<close>

theorem validate_hands_raw_body_downstream:
  "validate \<lparr>body_schema = Some (schema DelegateApply), query_schema = None, async = True\<rparr>
        demo_request = Inr (Next demo_request)
   \<and> safeParse (schema DelegateApply) (body demo_request)
      = Inr (Success (demo_application JNull 2 ''US'' 1 ''DE'' 2 ''FR''))
   \<and> jsprop (demo_application JNull 2 ''US'' 1 ''DE'' 2 ''FR'') ''delegationId'' = JNull
   \<and> jsprop (body demo_request) ''delegationId'' = JNum (- 1)
   \<and> body demo_request \<noteq> demo_application JNull 2 ''US'' 1 ''DE'' 2 ''FR''"
proof -
  have b: "safeParse (schema DelegateApply) (body demo_request)
      = Inr (Success (demo_application JNull 2 ''US'' 1 ''DE'' 2 ''FR''))"
    by (simp add: schema_def handleResult_def demo_request_def DelegateApply_demo)
  have v: "validate \<lparr>body_schema = Some (schema DelegateApply), query_schema = None, async = True\<rparr>
        demo_request = Inr (Next demo_request)"
    by (simp add: validate_def parse_part_def b)
  have p: "jsprop (demo_application JNull 2 ''US'' 1 ''DE'' 2 ''FR'') ''delegationId'' = JNull"
      "jsprop (body demo_request) ''delegationId'' = JNum (- 1)"
    by (simp_all add: demo_request_def demo_application_def get_prop_def)
  from p have "body demo_request \<noteq> demo_application JNull 2 ''US'' 1 ''DE'' 2 ''FR''"
    by auto
  with b v p show ?thesis by simp
qed

text \<open>
  Claim C4 says that the validator evaluates a schema with an asynchronous refinement when
  the caller sets the \<open>async\<close> flag. The validator never reads the flag and always parses
  synchronously: on the schema of the application page, with the flag set and the sample
  application as body, the synchronous parse raises, so the validator neither calls
  \<open>next\<close> nor answers 422, although the asynchronous parse of the same body succeeds.
\<close>

theorem validate_async_refinement_raises:
  "validate \<lparr>body_schema = Some (DelegateApply_refined (Given demo_refdata)),
             query_schema = None, async = True\<rparr> demo_request
     = Inl ''Async refinement encountered during synchronous parse operation. Use .parseAsync instead.''
   \<and> safeParseAsync (DelegateApply_refined (Given demo_refdata)) (body demo_request)
     = Inr (Success (demo_application JNull 2 ''US'' 1 ''DE'' 2 ''FR''))"
proof -
  have s: "safeParse (DelegateApply_refined (Given demo_refdata)) (body demo_request)
     = Inl ''Async refinement encountered during synchronous parse operation. Use .parseAsync instead.''"
    by (simp add: DelegateApply_refined_def superRefineAsync_def demo_request_def
        DelegateApply_demo)
  have a: "safeParseAsync (DelegateApply_refined (Given demo_refdata)) (body demo_request)
     = Inr (Success (demo_application JNull 2 ''US'' 1 ''DE'' 2 ''FR''))"
    using as_DelegateApply_demo refine_demo
    by (simp add: DelegateApply_refined_def superRefineAsync_def demo_request_def
        DelegateApply_demo handleResult_def)
  show ?thesis using a by (simp add: validate_def parse_part_def s)
qed

section \<open>Objects and their fields\<close>

lemma z_object_JObj:
  "z_object shape p (JObj data) =
     (concat (map (\<lambda>(key, kv). fst (kv (p @ [key]) (get_prop data key))) shape),
      mergeObjectSync False []
        (map (\<lambda>(key, kv). (key, snd (kv (p @ [key]) (get_prop data key)), map_of data key \<noteq> None))
           shape))"
  by (simp add: z_object_def Let_def split_def comp_def)

lemma mergeObjectSync_step:
  "r \<noteq> INVALID \<Longrightarrow>
     mergeObjectSync dirty acc ((k, r, a) # pairs) =
       mergeObjectSync (dirty \<or> (\<exists>v. r = DIRTY v)) (acc @ object_entry (k, r, a)) pairs"
  by (cases r) auto

lemma mergeObjectSync_OK:
  "mergeObjectSync dirty acc pairs = OK x \<Longrightarrow>
     \<not> dirty \<and> x = JObj (acc @ concat (map object_entry pairs))
     \<and> (\<forall>(k, r, a) \<in> set pairs. \<exists>v. r = OK v)"
proof (induction pairs arbitrary: dirty acc)
  case Nil
  then show ?case by (simp split: if_splits)
next
  case (Cons pr pairs)
  obtain k r a where pr: "pr = (k, r, a)" by (cases pr)
  show ?case
  proof (cases r)
    case INVALID
    with Cons.prems pr show ?thesis by simp
  next
    case (DIRTY v)
    with Cons.prems pr
    have "mergeObjectSync True (acc @ object_entry (k, r, a)) pairs = OK x"
      by (simp add: mergeObjectSync_step del: mergeObjectSync.simps object_entry.simps)
    from Cons.IH [OF this] show ?thesis by simp
  next
    case (OK v)
    with Cons.prems pr
    have "mergeObjectSync dirty (acc @ object_entry (k, r, a)) pairs = OK x"
      by (simp add: mergeObjectSync_step del: mergeObjectSync.simps object_entry.simps)
    from Cons.IH [OF this] OK pr show ?thesis by simp
  qed
qed

lemma mergeObjectSync_DIRTY:
  "mergeObjectSync dirty acc pairs = DIRTY x \<Longrightarrow>
     x = JObj (acc @ concat (map object_entry pairs))"
proof (induction pairs arbitrary: dirty acc)
  case Nil
  then show ?case by (simp split: if_splits)
next
  case (Cons pr pairs)
  obtain k r a where pr: "pr = (k, r, a)" by (cases pr)
  show ?case
  proof (cases r)
    case INVALID
    with Cons.prems pr show ?thesis by simp
  next
    case (DIRTY v)
    with Cons.prems pr
    have "mergeObjectSync True (acc @ object_entry (k, r, a)) pairs = DIRTY x"
      by (simp add: mergeObjectSync_step del: mergeObjectSync.simps object_entry.simps)
    from Cons.IH [OF this] DIRTY pr show ?thesis by simp
  next
    case (OK v)
    with Cons.prems pr
    have "mergeObjectSync dirty (acc @ object_entry (k, r, a)) pairs = DIRTY x"
      by (simp add: mergeObjectSync_step del: mergeObjectSync.simps object_entry.simps)
    from Cons.IH [OF this] OK pr show ?thesis by simp
  qed
qed

lemma mergeObjectSync_all_OK:
  "\<forall>(k, r, a) \<in> set pairs. \<exists>v. r = OK v \<Longrightarrow>
     mergeObjectSync dirty acc pairs =
       (if dirty then DIRTY (JObj (acc @ concat (map object_entry pairs)))
        else OK (JObj (acc @ concat (map object_entry pairs))))"
proof (induction pairs arbitrary: acc)
  case Nil
  then show ?case by simp
next
  case (Cons pr pairs)
  obtain k r a where pr: "pr = (k, r, a)" by (cases pr)
  with Cons.prems obtain v where v: "r = OK v" by auto
  from Cons.prems have "\<forall>(k, r, a) \<in> set pairs. \<exists>v. r = OK v" by simp
  from Cons.IH [OF this] pr v show ?case
    by (simp add: mergeObjectSync_step del: mergeObjectSync.simps object_entry.simps)
qed

lemma get_prop_Cons: "get_prop ((k', v) # rest) k = (if k = k' then v else get_prop rest k)"
  by (simp add: get_prop_def)

lemma get_prop_entry:
  "get_prop (object_entry (k', r, a) @ rest) k =
     (if k = k' \<and> object_entry (k', r, a) \<noteq> [] then get_prop (object_entry (k', r, a)) k
      else get_prop rest k)"
  by (cases r) (simp_all add: get_prop_def)

section \<open>The delegate application schema\<close>

lemma refineDelegateApply_no_issue:
  assumes "resolve p = Inr d"
    and "choice1committee b \<in> id' ` set (committees d)"
    and "choice2committee b \<in> id' ` set (committees d)"
    and "choice3committee b \<in> id' ` set (committees d)"
    and "\<exists>r \<in> set (committeeCountries d). committeeId r = choice1committee b \<and> country r = choice1country b"
    and "\<exists>r \<in> set (committeeCountries d). committeeId r = choice2committee b \<and> country r = choice2country b"
    and "\<exists>r \<in> set (committeeCountries d). committeeId r = choice3committee b \<and> country r = choice3country b"
  shows "refineDelegateApply p b ctx = Inr ctx"
  using assms(2-)
  by (simp add: refineDelegateApply_checks [OF assms(1)] committee_check_def country_check_def)

lemma DelegateApply_shape_valid:
  assumes "get_prop data ''userId'' = JNum u"
    and "get_prop data ''motivation'' = JStr m" and "10 \<le> length m" and "length m \<le> 4000"
    and "get_prop data ''experience'' = JStr e" and "10 \<le> length e" and "length e \<le> 4000"
    and "get_prop data ''delegationId'' = deleg" and "deleg = JNull \<or> (\<exists>n. deleg = JNum n)"
    and "get_prop data ''choice1committee'' = JNum c1" and "0 \<le> c1"
    and "get_prop data ''choice1country'' = JStr k1" and "2 \<le> length k1"
    and "get_prop data ''choice2committee'' = JNum c2" and "0 \<le> c2"
    and "get_prop data ''choice2country'' = JStr k2" and "2 \<le> length k2"
    and "get_prop data ''choice3committee'' = JNum c3" and "0 \<le> c3"
    and "get_prop data ''choice3country'' = JStr k3" and "2 \<le> length k3"
    and "get_prop data ''shirtSize'' = shirt"
    and "shirt = JNull \<or> (\<exists>s \<in> set [''XS'', ''S'', ''M'', ''L'', ''XL'', ''XXL'']. shirt = JStr s)"
  shows "DelegateApply [] (JObj data) = ([], OK (JObj
       [(''userId'', JNum u), (''motivation'', JStr m), (''experience'', JStr e),
        (''delegationId'', if deleg = JNum (- 1) then JNull else deleg),
        (''choice1committee'', JNum c1), (''choice1country'', JStr k1),
        (''choice2committee'', JNum c2), (''choice2country'', JStr k2),
        (''choice3committee'', JNum c3), (''choice3country'', JStr k3),
        (''shirtSize'', shirt)]))"
proof -
  have d: "preprocess (\<lambda>val. if val = JNum (- 1) then JNull else val) (nullable (z_number None []))
             [''delegationId''] deleg = ([], OK (if deleg = JNum (- 1) then JNull else deleg))"
    using assms(9) by (auto simp: preprocess_def nullable_def z_number_def)
  have s: "nullable (z_enum [''XS'', ''S'', ''M'', ''L'', ''XL'', ''XXL'']) [''shirtSize''] shirt
             = ([], OK shirt)"
    using assms(23) by (auto simp: nullable_def z_enum_def)
  have u: "(if deleg = JNum (- 1) then JNull else deleg) \<noteq> JUndefined"
    using assms(9) by auto
  have z: "shirt \<noteq> JUndefined"
    using assms(23) by auto
  show ?thesis
    using assms(1-8,10-22) u z
    by (simp add: DelegateApply_def z_object_def d s z_number_def z_string_def)
qed


lemma as_DelegateApply_shape_valid:
  assumes "deleg = JNull \<or> (\<exists>n. deleg = JNum n)"
    and "shirt = JNull \<or> (\<exists>s. shirt = JStr s)"
  shows "\<exists>b. as_DelegateApply (JObj
       [(''userId'', JNum u), (''motivation'', JStr m), (''experience'', JStr e),
        (''delegationId'', deleg),
        (''choice1committee'', JNum c1), (''choice1country'', JStr k1),
        (''choice2committee'', JNum c2), (''choice2country'', JStr k2),
        (''choice3committee'', JNum c3), (''choice3country'', JStr k3),
        (''shirtSize'', shirt)]) = Some b
     \<and> choice1committee b = c1 \<and> choice1country b = k1
     \<and> choice2committee b = c2 \<and> choice2country b = k2
     \<and> choice3committee b = c3 \<and> choice3country b = k3"
  using assms by (auto simp: as_DelegateApply_def get_prop_def)

section \<open>The sign-up schema\<close>

lemmas zod_defs = z_string_def z_number_def z_enum_def z_date_def nullable_def z_default_def
  preprocess_def transform_def superRefine_def refine_def z_union_def under_def addIssue_def
  DietaryOptions_def

lemma signup_field_messages:
  assumes "(k, z) \<in> set (SignupShape ext)" and "i \<in> set (fst (z [k] v))"
  shows "message i \<noteq> Some ''Passwords do not match''"
  using assms
  by (cases v) (auto simp: SignupShape_def zod_defs Let_def split: if_splits option.splits)


lemma SignupSchema_JObj:
  "SignupSchema ext [] (JObj data) =
     (case mergeObjectSync False []
             (map (\<lambda>(key, kv). (key, snd (kv [key] (get_prop data key)), map_of data key \<noteq> None))
                (SignupShape ext)) of
        INVALID \<Rightarrow>
          (concat (map (\<lambda>(key, kv). fst (kv [key] (get_prop data key))) (SignupShape ext)), INVALID)
      | DIRTY x \<Rightarrow>
          (concat (map (\<lambda>(key, kv). fst (kv [key] (get_prop data key))) (SignupShape ext))
             @ (if jsprop x ''password'' \<noteq> jsprop x ''passwordConfirm''
                then [ZodIssue custom [''passwordConfirm''] (Some ''Passwords do not match'') None []]
                else []),
           DIRTY x)
      | OK x \<Rightarrow>
          (concat (map (\<lambda>(key, kv). fst (kv [key] (get_prop data key))) (SignupShape ext))
             @ (if jsprop x ''password'' \<noteq> jsprop x ''passwordConfirm''
                then [ZodIssue custom [''passwordConfirm''] (Some ''Passwords do not match'') None []]
                else []),
           if jsprop x ''password'' \<noteq> jsprop x ''passwordConfirm'' then DIRTY x else OK x))"
  by (simp add: SignupSchema_def superRefine_def z_object_JObj under_def addIssue_def Let_def
      split: SyncParseReturnType.splits)

lemma signup_object_passwords:
  assumes "get_prop data ''password'' = JStr pw" and "get_prop data ''passwordConfirm'' = JStr pc"
  shows "jsprop (JObj (concat (map object_entry
            (map (\<lambda>(key, kv). (key, snd (kv [key] (get_prop data key)), map_of data key \<noteq> None))
               (SignupShape ext))))) ''password'' = JStr pw
       \<and> jsprop (JObj (concat (map object_entry
            (map (\<lambda>(key, kv). (key, snd (kv [key] (get_prop data key)), map_of data key \<noteq> None))
               (SignupShape ext))))) ''passwordConfirm'' = JStr pc"
proof -
  have pw: "z_string [StrMin 8 (Some ''Password must be at least 8 characters'')] [''password'']
              (JStr pw) = (if length pw < 8
                 then ([ZodIssue too_small [''password'']
                           (Some ''Password must be at least 8 characters'') None []], DIRTY (JStr pw))
                 else ([], OK (JStr pw)))"
    by (simp add: z_string_def)
  have pc: "z_string [] [''passwordConfirm''] (JStr pc) = ([], OK (JStr pc))"
    by (simp add: z_string_def)
  show ?thesis
    by (simp add: SignupShape_def assms pw pc get_prop_entry get_prop_Cons
        del: object_entry.simps)
      (simp add: get_prop_def)
qed


lemma in_set_nonempty: "x \<in> set xs \<Longrightarrow> xs \<noteq> []"
  by auto

lemma signup_short_password:
  assumes pw: "get_prop data ''password'' = JStr pw" and short: "length pw < 8"
    and pc: "get_prop data ''passwordConfirm'' = JStr pw"
  shows "\<exists>issues. safeParse (schema (SignupSchema ext)) (JObj data) = Inr (Failure issues)
     \<and> ZodIssue too_small [''password''] (Some ''Password must be at least 8 characters'') None []
           \<in> set issues
     \<and> (\<forall>i \<in> set issues. message i \<noteq> Some ''Passwords do not match'')"
proof -
  let ?pairs = "map (\<lambda>(key, kv). (key, snd (kv [key] (get_prop data key)), map_of data key \<noteq> None))
                  (SignupShape ext)"
  let ?fis = "concat (map (\<lambda>(key, kv). fst (kv [key] (get_prop data key))) (SignupShape ext))"
  have field: "z_string [StrMin 8 (Some ''Password must be at least 8 characters'')] [''password'']
              (JStr pw) = ([ZodIssue too_small [''password'']
                           (Some ''Password must be at least 8 characters'') None []], DIRTY (JStr pw))"
    using short by (simp add: z_string_def)
  have ts: "ZodIssue too_small [''password''] (Some ''Password must be at least 8 characters'') None []
              \<in> set ?fis"
    by (simp add: SignupShape_def pw field)
  have nm: "\<forall>i \<in> set ?fis. message i \<noteq> Some ''Passwords do not match''"
    using signup_field_messages [of _ _ ext] by fastforce
  have mem: "(''password'', DIRTY (JStr pw), map_of data ''password'' \<noteq> None) \<in> set ?pairs"
    by (simp add: SignupShape_def pw field)
  have res: "SignupSchema ext [] (JObj data) = (?fis, INVALID)
           \<or> (\<exists>x. SignupSchema ext [] (JObj data) = (?fis, DIRTY x))"
  proof (cases "mergeObjectSync False [] ?pairs")
    case INVALID
    then show ?thesis by (simp add: SignupSchema_JObj)
  next
    case (DIRTY x)
    from mergeObjectSync_DIRTY [OF this] signup_object_passwords [OF pw pc, of ext]
    have "jsprop x ''password'' = jsprop x ''passwordConfirm''" by simp
    with DIRTY show ?thesis by (simp add: SignupSchema_JObj)
  next
    case (OK x)
    from mergeObjectSync_OK [OF this] mem show ?thesis by fastforce
  qed
  define fis where "fis = ?fis"
  have ne: "fis \<noteq> []" unfolding fis_def by (rule in_set_nonempty [OF ts])
  from res have "SignupSchema ext [] (JObj data) = (fis, INVALID)
           \<or> (\<exists>x. SignupSchema ext [] (JObj data) = (fis, DIRTY x))"
    by (simp only: fis_def)
  with ne have "safeParse (schema (SignupSchema ext)) (JObj data) = Inr (Failure fis)"
    by (auto simp: schema_def handleResult_def)
  with ts nm show ?thesis unfolding fis_def by blast
qed

lemma signup_mismatch:
  assumes pw: "get_prop data ''password'' = JStr pw" and long: "8 \<le> length pw"
    and pc: "get_prop data ''passwordConfirm'' = JStr pc" and diff: "pc \<noteq> pw"
    and others: "\<forall>(k, z) \<in> set (SignupShape ext). k \<noteq> ''password'' \<and> k \<noteq> ''passwordConfirm'' \<longrightarrow>
                   (\<exists>v. z [k] (get_prop data k) = ([], OK v))"
  shows "safeParse (schema (SignupSchema ext)) (JObj data) =
           Inr (Failure [ZodIssue custom [''passwordConfirm''] (Some ''Passwords do not match'') None []])"
proof -
  let ?pairs = "map (\<lambda>(key, kv). (key, snd (kv [key] (get_prop data key)), map_of data key \<noteq> None))
                  (SignupShape ext)"
  let ?fis = "concat (map (\<lambda>(key, kv). fst (kv [key] (get_prop data key))) (SignupShape ext))"
  have f1: "z_string [StrMin 8 (Some ''Password must be at least 8 characters'')] [''password'']
              (JStr pw) = ([], OK (JStr pw))"
    using long by (simp add: z_string_def)
  have f2: "z_string [] [''passwordConfirm''] (JStr pc) = ([], OK (JStr pc))"
    by (simp add: z_string_def)
  have all: "\<forall>(k, z) \<in> set (SignupShape ext). \<exists>v. z [k] (get_prop data k) = ([], OK v)"
  proof (clarify)
    fix k z assume kz: "(k, z) \<in> set (SignupShape ext)"
    show "\<exists>v. z [k] (get_prop data k) = ([], OK v)"
    proof (cases "k \<noteq> ''password'' \<and> k \<noteq> ''passwordConfirm''")
      case True
      with others kz show ?thesis by blast
    next
      case False
      with kz show ?thesis by (auto simp: SignupShape_def pw pc f1 f2)
    qed
  qed
  have fis: "?fis = []"
    using all by (fastforce)
  have ok: "\<forall>(k, r, a) \<in> set ?pairs. \<exists>v. r = OK v"
    using all by fastforce
  have m: "mergeObjectSync False [] ?pairs = OK (JObj (concat (map object_entry ?pairs)))"
    using mergeObjectSync_all_OK [OF ok, of False "[]"] by simp
  from signup_object_passwords [OF pw pc, of ext] diff
  have ne: "jsprop (JObj (concat (map object_entry ?pairs))) ''password''
          \<noteq> jsprop (JObj (concat (map object_entry ?pairs))) ''passwordConfirm''"
    by simp
  have "SignupSchema ext [] (JObj data) =
      ([ZodIssue custom [''passwordConfirm''] (Some ''Passwords do not match'') None []],
       DIRTY (JObj (concat (map object_entry ?pairs))))"
    unfolding SignupSchema_JObj m using ne fis by simp
  then show ?thesis by (simp add: schema_def handleResult_def)
qed

section \<open>Accepted delegate applications\<close>

text \<open>
  Claim C8. Take any input object in which every field of the delegate application meets
  its shape constraint (a numeric user id; motivation and experience of 10 to 4000
  characters; a delegation id that is a number or null; three committee ids that are at
  least 0, each with a country of at least 2 characters; a shirt size from the list or
  null), and any reference data in which each of the three committees and each of the
  three pairs of committee and country exists. Then the validation of the application
  page accepts with no error and returns the object of these fields, in which a
  delegation id of \<open>-1\<close> has become null and every other value is as submitted; keys that
  the schema does not know are dropped.
\<close>

theorem valid_delegate_application_accepted_normalized:
  assumes "resolve p = Inr d"
    and "get_prop data ''userId'' = JNum u"
    and "get_prop data ''motivation'' = JStr m" and "10 \<le> length m" and "length m \<le> 4000"
    and "get_prop data ''experience'' = JStr e" and "10 \<le> length e" and "length e \<le> 4000"
    and "get_prop data ''delegationId'' = deleg" and "deleg = JNull \<or> (\<exists>n. deleg = JNum n)"
    and "get_prop data ''choice1committee'' = JNum c1" and "0 \<le> c1"
    and "get_prop data ''choice1country'' = JStr k1" and "2 \<le> length k1"
    and "get_prop data ''choice2committee'' = JNum c2" and "0 \<le> c2"
    and "get_prop data ''choice2country'' = JStr k2" and "2 \<le> length k2"
    and "get_prop data ''choice3committee'' = JNum c3" and "0 \<le> c3"
    and "get_prop data ''choice3country'' = JStr k3" and "2 \<le> length k3"
    and "get_prop data ''shirtSize'' = shirt"
    and "shirt = JNull \<or> (\<exists>s \<in> set [''XS'', ''S'', ''M'', ''L'', ''XL'', ''XXL'']. shirt = JStr s)"
    and "c1 \<in> id' ` set (committees d)"
    and "c2 \<in> id' ` set (committees d)"
    and "c3 \<in> id' ` set (committees d)"
    and "\<exists>r \<in> set (committeeCountries d). committeeId r = c1 \<and> country r = k1"
    and "\<exists>r \<in> set (committeeCountries d). committeeId r = c2 \<and> country r = k2"
    and "\<exists>r \<in> set (committeeCountries d). committeeId r = c3 \<and> country r = k3"
  shows "safeParseAsync (DelegateApply_refined p) (JObj data) = Inr (Success (JObj
       [(''userId'', JNum u), (''motivation'', JStr m), (''experience'', JStr e),
        (''delegationId'', if deleg = JNum (- 1) then JNull else deleg),
        (''choice1committee'', JNum c1), (''choice1country'', JStr k1),
        (''choice2committee'', JNum c2), (''choice2country'', JStr k2),
        (''choice3committee'', JNum c3), (''choice3country'', JStr k3),
        (''shirtSize'', shirt)]))"
proof -
  let ?v = "JObj
       [(''userId'', JNum u), (''motivation'', JStr m), (''experience'', JStr e),
        (''delegationId'', if deleg = JNum (- 1) then JNull else deleg),
        (''choice1committee'', JNum c1), (''choice1country'', JStr k1),
        (''choice2committee'', JNum c2), (''choice2country'', JStr k2),
        (''choice3committee'', JNum c3), (''choice3country'', JStr k3),
        (''shirtSize'', shirt)]"
  have shape: "DelegateApply [] (JObj data) = ([], OK ?v)"
    by (rule DelegateApply_shape_valid [OF assms(2-24)])
  have "(if deleg = JNum (- 1) then JNull else deleg) = JNull
      \<or> (\<exists>n. (if deleg = JNum (- 1) then JNull else deleg) = JNum n)"
    using assms(10) by auto
  moreover have "shirt = JNull \<or> (\<exists>s. shirt = JStr s)"
    using assms(24) by auto
  ultimately obtain b where b: "as_DelegateApply ?v = Some b"
      "choice1committee b = c1" "choice1country b = k1"
      "choice2committee b = c2" "choice2country b = k2"
      "choice3committee b = c3" "choice3country b = k3"
    using as_DelegateApply_shape_valid by blast
  have "refineDelegateApply p b [] = Inr []"
    using assms(25-30) b(2-7) by (intro refineDelegateApply_no_issue [OF assms(1)]) simp_all
  then show ?thesis
    using shape b(1)
    by (simp add: DelegateApply_refined_def superRefineAsync_def handleResult_def)
qed

theorem valid_delegate_application_accepted_normalized_witness:
  "resolve (Given demo_refdata) = Inr demo_refdata
   \<and> jsprop (demo_application (JNum (- 1)) 2 ''US'' 1 ''DE'' 2 ''FR'') ''delegationId'' = JNum (- 1)
   \<and> safeParseAsync (DelegateApply_refined (Given demo_refdata))
         (demo_application (JNum (- 1)) 2 ''US'' 1 ''DE'' 2 ''FR'')
       = Inr (Success (demo_application JNull 2 ''US'' 1 ''DE'' 2 ''FR''))"
proof -
  have "safeParseAsync (DelegateApply_refined (Given demo_refdata))
          (JObj [(''userId'', JNum 7),
           (''motivation'', JStr ''I want to debate.''),
           (''experience'', JStr ''Two conferences.''),
           (''delegationId'', JNum (- 1)),
           (''choice1committee'', JNum 2), (''choice1country'', JStr ''US''),
           (''choice2committee'', JNum 1), (''choice2country'', JStr ''DE''),
           (''choice3committee'', JNum 2), (''choice3country'', JStr ''FR''),
           (''shirtSize'', JStr ''M'')])
       = Inr (Success (JObj
          [(''userId'', JNum 7), (''motivation'', JStr ''I want to debate.''),
           (''experience'', JStr ''Two conferences.''),
           (''delegationId'', if JNum (- 1) = JNum (- 1) then JNull else JNum (- 1)),
           (''choice1committee'', JNum 2), (''choice1country'', JStr ''US''),
           (''choice2committee'', JNum 1), (''choice2country'', JStr ''DE''),
           (''choice3committee'', JNum 2), (''choice3country'', JStr ''FR''),
           (''shirtSize'', JStr ''M'')]))"
    by (rule valid_delegate_application_accepted_normalized [OF resolve_Given])
      (simp_all add: get_prop_def demo_refdata_def)
  then show ?thesis
    by (simp add: demo_application_def resolve_Given get_prop_def)
qed

text \<open>
  Claim C9. The three choices are not checked for being distinct. Take any input that
  passes the shape validation and whose three choice slots name the same committee; if
  that committee exists in the reference data and each of the three countries is paired
  with it there, the refinement adds no issue and the validation accepts, with the
  refinement of the application page as well as with the schema alone that the route of
  the server passes to the validator.
\<close>

theorem same_committee_in_all_slots_accepted:
  assumes "resolve p = Inr d"
    and "DelegateApply [] input = ([], OK v)"
    and "as_DelegateApply v = Some b"
    and "choice1committee b = c" and "choice2committee b = c" and "choice3committee b = c"
    and "c \<in> id' ` set (committees d)"
    and "\<exists>r \<in> set (committeeCountries d). committeeId r = c \<and> country r = choice1country b"
    and "\<exists>r \<in> set (committeeCountries d). committeeId r = c \<and> country r = choice2country b"
    and "\<exists>r \<in> set (committeeCountries d). committeeId r = c \<and> country r = choice3country b"
  shows "refineDelegateApply p b ctx = Inr ctx
    \<and> safeParseAsync (DelegateApply_refined p) input = Inr (Success v)
    \<and> safeParse (schema DelegateApply) input = Inr (Success v)"
proof -
  have r: "refineDelegateApply p b ctx' = Inr ctx'" for ctx'
    using assms(4-) by (intro refineDelegateApply_no_issue [OF assms(1)]) simp_all
  show ?thesis
    using r [of ctx] r [of "[]"] assms(2,3)
    by (simp add: DelegateApply_refined_def superRefineAsync_def handleResult_def schema_def)
qed

theorem same_committee_in_all_slots_accepted_witness:
  "resolve (Given demo_refdata) = Inr demo_refdata
   \<and> DelegateApply [] (demo_application JNull 2 ''US'' 2 ''FR'' 2 ''US'')
       = ([], OK (demo_application JNull 2 ''US'' 2 ''FR'' 2 ''US''))
   \<and> as_DelegateApply (demo_application JNull 2 ''US'' 2 ''FR'' 2 ''US'')
       = Some (demo_body 2 ''US'' 2 ''FR'' 2 ''US'')
   \<and> refineDelegateApply (Given demo_refdata) (demo_body 2 ''US'' 2 ''FR'' 2 ''US'') [] = Inr []
   \<and> safeParseAsync (DelegateApply_refined (Given demo_refdata))
         (demo_application JNull 2 ''US'' 2 ''FR'' 2 ''US'')
       = Inr (Success (demo_application JNull 2 ''US'' 2 ''FR'' 2 ''US''))"
proof -
  let ?input = "demo_application JNull 2 ''US'' 2 ''FR'' 2 ''US''"
  let ?b = "demo_body 2 ''US'' 2 ''FR'' 2 ''US''"
  have shape: "DelegateApply [] ?input = ([], OK ?input)"
    by (simp add: DelegateApply_def demo_application_def z_object_def z_number_def z_string_def
        z_enum_def nullable_def preprocess_def get_prop_def)
  have view: "as_DelegateApply ?input = Some ?b"
    by (simp add: as_DelegateApply_def demo_application_def demo_body_def get_prop_def)
  have "refineDelegateApply (Given demo_refdata) ?b [] = Inr []
    \<and> safeParseAsync (DelegateApply_refined (Given demo_refdata)) ?input = Inr (Success ?input)
    \<and> safeParse (schema DelegateApply) ?input = Inr (Success ?input)"
    by (rule same_committee_in_all_slots_accepted
          [OF resolve_Given shape view, where c = 2])
      (simp_all add: demo_body_def demo_refdata_def)
  with shape view show ?thesis by (simp add: resolve_Given)
qed

section \<open>Passwords of the sign-up form\<close>

lemma demo_signup_other_fields:
  "\<forall>(k, z) \<in> set (SignupShape demo_ext). k \<noteq> ''password'' \<and> k \<noteq> ''passwordConfirm'' \<longrightarrow>
      (\<exists>v. z [k] (get_prop (demo_signup pw pc JNull) k) = ([], OK v))"
  by (simp add: SignupShape_def demo_signup_def demo_ext_def get_prop_def zod_defs)

text \<open>
  Claim C7. A sign-up input with password "abc" and passwordConfirm "abc" is rejected, the
  report has the issue of the 8-character minimum on the \<open>password\<close> field, and no issue
  of the report says that the passwords do not match; this holds whatever the other
  fields are. A sign-up input with password "longenough1" and passwordConfirm
  "different1" in which every other field is valid is rejected with exactly one issue:
  the custom issue on the \<open>passwordConfirm\<close> path with the message "Passwords do not
  match".
\<close>

theorem signup_short_password_then_mismatch:
  "(get_prop data ''password'' = JStr ''abc'' \<and> get_prop data ''passwordConfirm'' = JStr ''abc'' \<longrightarrow>
      (\<exists>issues. safeParse (schema (SignupSchema ext)) (JObj data) = Inr (Failure issues)
         \<and> ZodIssue too_small [''password''] (Some ''Password must be at least 8 characters'') None []
               \<in> set issues
         \<and> (\<forall>i \<in> set issues. message i \<noteq> Some ''Passwords do not match'')))
   \<and> (get_prop data ''password'' = JStr ''longenough1''
        \<and> get_prop data ''passwordConfirm'' = JStr ''different1''
        \<and> (\<forall>(k, z) \<in> set (SignupShape ext). k \<noteq> ''password'' \<and> k \<noteq> ''passwordConfirm'' \<longrightarrow>
              (\<exists>v. z [k] (get_prop data k) = ([], OK v))) \<longrightarrow>
      safeParse (schema (SignupSchema ext)) (JObj data) =
        Inr (Failure [ZodIssue custom [''passwordConfirm''] (Some ''Passwords do not match'') None []]))"
proof (intro conjI impI)
  assume "get_prop data ''password'' = JStr ''abc'' \<and> get_prop data ''passwordConfirm'' = JStr ''abc''"
  then show "\<exists>issues. safeParse (schema (SignupSchema ext)) (JObj data) = Inr (Failure issues)
         \<and> ZodIssue too_small [''password''] (Some ''Password must be at least 8 characters'') None []
               \<in> set issues
         \<and> (\<forall>i \<in> set issues. message i \<noteq> Some ''Passwords do not match'')"
    by (intro signup_short_password) simp_all
next
  assume a: "get_prop data ''password'' = JStr ''longenough1''
        \<and> get_prop data ''passwordConfirm'' = JStr ''different1''
        \<and> (\<forall>(k, z) \<in> set (SignupShape ext). k \<noteq> ''password'' \<and> k \<noteq> ''passwordConfirm'' \<longrightarrow>
              (\<exists>v. z [k] (get_prop data k) = ([], OK v)))"
  show "safeParse (schema (SignupSchema ext)) (JObj data) =
        Inr (Failure [ZodIssue custom [''passwordConfirm''] (Some ''Passwords do not match'') None []])"
    by (rule signup_mismatch [where pw = "''longenough1''" and pc = "''different1''"])
      (use a in simp_all)
qed

theorem signup_short_password_then_mismatch_witness:
  "get_prop (demo_signup ''abc'' ''abc'' JNull) ''password'' = JStr ''abc''
   \<and> get_prop (demo_signup ''abc'' ''abc'' JNull) ''passwordConfirm'' = JStr ''abc''
   \<and> (\<exists>issues. safeParse (schema (SignupSchema demo_ext)) (JObj (demo_signup ''abc'' ''abc'' JNull))
          = Inr (Failure issues)
        \<and> ZodIssue too_small [''password''] (Some ''Password must be at least 8 characters'') None []
              \<in> set issues)
   \<and> get_prop (demo_signup ''longenough1'' ''different1'' JNull) ''password'' = JStr ''longenough1''
   \<and> get_prop (demo_signup ''longenough1'' ''different1'' JNull) ''passwordConfirm'' = JStr ''different1''
   \<and> safeParse (schema (SignupSchema demo_ext)) (JObj (demo_signup ''longenough1'' ''different1'' JNull))
        = Inr (Failure [ZodIssue custom [''passwordConfirm''] (Some ''Passwords do not match'') None []])"
proof -
  have g: "get_prop (demo_signup pw pc JNull) ''password'' = JStr pw"
      "get_prop (demo_signup pw pc JNull) ''passwordConfirm'' = JStr pc" for pw pc
    by (simp_all add: demo_signup_def get_prop_def)
  from signup_short_password_then_mismatch [of "demo_signup ''abc'' ''abc'' JNull" demo_ext] g
  have one: "\<exists>issues. safeParse (schema (SignupSchema demo_ext)) (JObj (demo_signup ''abc'' ''abc'' JNull))
          = Inr (Failure issues)
        \<and> ZodIssue too_small [''password''] (Some ''Password must be at least 8 characters'') None []
              \<in> set issues"
    by blast
  from signup_short_password_then_mismatch
    [of "demo_signup ''longenough1'' ''different1'' JNull" demo_ext] g
    demo_signup_other_fields [of "''longenough1''" "''different1''"]
  have two: "safeParse (schema (SignupSchema demo_ext))
          (JObj (demo_signup ''longenough1'' ''different1'' JNull))
        = Inr (Failure [ZodIssue custom [''passwordConfirm''] (Some ''Passwords do not match'') None []])"
    by blast
  from one two g show ?thesis by blast
qed

section \<open>The phone of the sign-up form\<close>

lemma signup_phone_falsy:
  assumes "(''phone'', z) \<in> set (SignupShape ext)"
  shows "z [''phone''] (JStr '''') = ([], OK JNull)" and "z [''phone''] JNull = ([], OK JNull)"
  using assms by (auto simp: SignupShape_def zod_defs)

lemma signup_object_phone:
  assumes "get_prop data ''phone'' = JStr '''' \<or> get_prop data ''phone'' = JNull"
  shows "jsprop (JObj (concat (map object_entry
            (map (\<lambda>(key, kv). (key, snd (kv [key] (get_prop data key)), map_of data key \<noteq> None))
               (SignupShape ext))))) ''phone'' = JNull"
proof -
  have ph: "transform
           (refine (nullable (z_string []))
              (\<lambda>phone. if truthy phone then on_string (isMobilePhone ext) phone else True)
              (Some ''Invalid phone number''))
           (\<lambda>phone. if truthy phone then phone else JNull) [''phone''] (get_prop data ''phone'')
         = ([], OK JNull)"
    using assms by (auto simp: zod_defs)
  show ?thesis
    by (simp add: SignupShape_def ph get_prop_entry get_prop_Cons del: object_entry.simps)
      (simp add: get_prop_def)
qed

lemma mergeObjectSync_INVALID:
  "(k, INVALID, a) \<in> set pairs \<Longrightarrow> mergeObjectSync dirty acc pairs = INVALID"
proof (induction pairs arbitrary: dirty acc)
  case Nil
  then show ?case by simp
next
  case (Cons pr pairs)
  obtain k' r a' where pr: "pr = (k', r, a')" by (cases pr)
  show ?case
  proof (cases "r = INVALID")
    case True
    with pr show ?thesis by simp
  next
    case False
    with Cons.prems pr have "(k, INVALID, a) \<in> set pairs" by auto
    from Cons.IH [OF this] pr False show ?thesis
      by (simp add: mergeObjectSync_step del: mergeObjectSync.simps object_entry.simps)
  qed
qed

lemma signup_missing_phone:
  assumes "get_prop data ''phone'' = JUndefined"
  shows "\<exists>issues. safeParse (schema (SignupSchema ext)) (JObj data) = Inr (Failure issues)
     \<and> ZodIssue invalid_type [''phone''] None None [] \<in> set issues"
proof -
  let ?pairs = "map (\<lambda>(key, kv). (key, snd (kv [key] (get_prop data key)), map_of data key \<noteq> None))
                  (SignupShape ext)"
  let ?fis = "concat (map (\<lambda>(key, kv). fst (kv [key] (get_prop data key))) (SignupShape ext))"
  have ph: "transform
           (refine (nullable (z_string []))
              (\<lambda>phone. if truthy phone then on_string (isMobilePhone ext) phone else True)
              (Some ''Invalid phone number''))
           (\<lambda>phone. if truthy phone then phone else JNull) [''phone''] JUndefined
         = ([ZodIssue invalid_type [''phone''] None None []], INVALID)"
    by (simp add: zod_defs)
  have ti: "ZodIssue invalid_type [''phone''] None None [] \<in> set ?fis"
    by (simp add: SignupShape_def assms ph)
  have mem: "(''phone'', INVALID, map_of data ''phone'' \<noteq> None) \<in> set ?pairs"
    by (simp add: SignupShape_def assms ph)
  define fis where "fis = ?fis"
  have ne: "fis \<noteq> []" unfolding fis_def by (rule in_set_nonempty [OF ti])
  have "SignupSchema ext [] (JObj data) = (fis, INVALID)"
    unfolding SignupSchema_JObj mergeObjectSync_INVALID [OF mem] fis_def by simp
  with ne have "safeParse (schema (SignupSchema ext)) (JObj data) = Inr (Failure fis)"
    by (simp add: schema_def handleResult_def)
  with ti show ?thesis unfolding fis_def by blast
qed

text \<open>
  Claim C10, as amended. A sign-up input whose phone is the empty string is not rejected
  by the mobile-phone check: the phone field reports no issue and parses to null whatever
  the check would say about the empty string, since the check is skipped for the falsy
  phones, the empty string and null. The result of the validation is the same as for the
  input that has null as its phone and is equal elsewhere, and in the accepted value the
  phone is null. An input that has no phone at all is rejected with a type issue on the
  \<open>phone\<close> field.
\<close>

theorem signup_empty_phone_normalized_to_null:
  assumes "get_prop data ''phone'' = JStr ''''"
    and "get_prop data' ''phone'' = JNull"
    and "\<forall>k. k \<noteq> ''phone'' \<longrightarrow> map_of data' k = map_of data k"
  shows "(\<forall>z. (''phone'', z) \<in> set (SignupShape ext) \<longrightarrow>
            z [''phone''] (get_prop data ''phone'') = ([], OK JNull))
    \<and> safeParse (schema (SignupSchema ext)) (JObj data)
        = safeParse (schema (SignupSchema ext)) (JObj data')
    \<and> (\<forall>v. safeParse (schema (SignupSchema ext)) (JObj data) = Inr (Success v) \<longrightarrow>
            jsprop v ''phone'' = JNull)
    \<and> (\<forall>other. get_prop other ''phone'' = JUndefined \<longrightarrow>
          (\<exists>issues. safeParse (schema (SignupSchema ext)) (JObj other) = Inr (Failure issues)
             \<and> ZodIssue invalid_type [''phone''] None None [] \<in> set issues))"
proof (intro conjI allI impI)
  fix other assume "get_prop other ''phone'' = JUndefined"
  then show "\<exists>issues. safeParse (schema (SignupSchema ext)) (JObj other) = Inr (Failure issues)
             \<and> ZodIssue invalid_type [''phone''] None None [] \<in> set issues"
    by (rule signup_missing_phone)
next
  fix z assume "(''phone'', z) \<in> set (SignupShape ext)"
  then show "z [''phone''] (get_prop data ''phone'') = ([], OK JNull)"
    using assms(1) by (simp add: signup_phone_falsy)
next
  have gp: "get_prop data' k = get_prop data k" if "k \<noteq> ''phone''" for k
    using assms(3) that by (simp add: get_prop_def)
  have mp: "map_of data' k = map_of data k" if "k \<noteq> ''phone''" for k
    using assms(3) that by simp
  have pres: "map_of data ''phone'' \<noteq> None" "map_of data' ''phone'' \<noteq> None"
    using assms(1,2) by (auto simp: get_prop_def split: option.splits)
  have ph: "transform
           (refine (nullable (z_string []))
              (\<lambda>phone. if truthy phone then on_string (isMobilePhone ext) phone else True)
              (Some ''Invalid phone number''))
           (\<lambda>phone. if truthy phone then phone else JNull) [''phone''] v
         = ([], OK JNull)" if "v = JStr '''' \<or> v = JNull" for v
    using that by (auto simp: zod_defs)
  have pairs: "map (\<lambda>(key, kv). (key, snd (kv [key] (get_prop data key)), map_of data key \<noteq> None))
                  (SignupShape ext)
             = map (\<lambda>(key, kv). (key, snd (kv [key] (get_prop data' key)), map_of data' key \<noteq> None))
                  (SignupShape ext)"
    using pres by (simp add: SignupShape_def gp mp assms(1,2) ph)
  have fis: "concat (map (\<lambda>(key, kv). fst (kv [key] (get_prop data key))) (SignupShape ext))
           = concat (map (\<lambda>(key, kv). fst (kv [key] (get_prop data' key))) (SignupShape ext))"
    by (simp add: SignupShape_def gp assms(1,2) ph)
  have "SignupSchema ext [] (JObj data) = SignupSchema ext [] (JObj data')"
    by (simp only: SignupSchema_JObj pairs fis)
  then show "safeParse (schema (SignupSchema ext)) (JObj data)
        = safeParse (schema (SignupSchema ext)) (JObj data')"
    by (simp add: schema_def)
next
  fix v assume s: "safeParse (schema (SignupSchema ext)) (JObj data) = Inr (Success v)"
  let ?pairs = "map (\<lambda>(key, kv). (key, snd (kv [key] (get_prop data key)), map_of data key \<noteq> None))
                  (SignupShape ext)"
  from s have "snd (SignupSchema ext [] (JObj data)) = OK v"
    by (auto simp: schema_def handleResult_def split: prod.splits SyncParseReturnType.splits
        if_splits)
  then have "mergeObjectSync False [] ?pairs = OK v"
    by (auto simp: SignupSchema_JObj split: SyncParseReturnType.splits if_splits)
  from mergeObjectSync_OK [OF this] have "v = JObj (concat (map object_entry ?pairs))"
    by simp
  with signup_object_phone [of data ext] assms(1) show "jsprop v ''phone'' = JNull"
    by simp
qed

theorem signup_empty_phone_normalized_to_null_witness:
  "get_prop (demo_signup ''longenough1'' ''longenough1'' (JStr '''')) ''phone'' = JStr ''''
   \<and> get_prop (demo_signup ''longenough1'' ''longenough1'' JNull) ''phone'' = JNull
   \<and> isMobilePhone demo_ext '''' = False
   \<and> safeParse (schema (SignupSchema demo_ext)) (JObj (demo_signup ''longenough1'' ''longenough1'' (JStr '''')))
       = safeParse (schema (SignupSchema demo_ext)) (JObj (demo_signup ''longenough1'' ''longenough1'' JNull))
   \<and> (\<exists>v. safeParse (schema (SignupSchema demo_ext))
              (JObj (demo_signup ''longenough1'' ''longenough1'' (JStr ''''))) = Inr (Success v)
          \<and> jsprop v ''phone'' = JNull)"
proof -
  let ?data = "demo_signup ''longenough1'' ''longenough1'' (JStr '''')"
  let ?data' = "demo_signup ''longenough1'' ''longenough1'' JNull"
  have h1: "get_prop ?data ''phone'' = JStr ''''"
    and h2: "get_prop ?data' ''phone'' = JNull"
    and h3: "\<forall>k. k \<noteq> ''phone'' \<longrightarrow> map_of ?data' k = map_of ?data k"
    by (simp_all add: demo_signup_def get_prop_def)
  note t = signup_empty_phone_normalized_to_null [OF h1 h2 h3, of demo_ext]
  have ok: "\<exists>v. safeParse (schema (SignupSchema demo_ext)) (JObj ?data) = Inr (Success v)"
    by (simp add: schema_def handleResult_def SignupSchema_def SignupShape_def demo_signup_def
        demo_ext_def z_object_def get_prop_def zod_defs)
  then obtain v where v: "safeParse (schema (SignupSchema demo_ext)) (JObj ?data) = Inr (Success v)"
    by blast
  with t have "jsprop v ''phone'' = JNull" by blast
  moreover have "isMobilePhone demo_ext '''' = False"
    by (simp add: demo_ext_def)
  ultimately show ?thesis using v t h1 h2 by blast
qed

text \<open>
  Claim C10 as stated takes the result for the empty string to be the result for an absent
  phone as well. The sample sign-up with the empty string as phone is accepted with a
  null phone; the same sign-up without the phone key is rejected, because the phone
  schema is nullable but not optional.
\<close>

theorem empty_phone_same_as_absent_phone_counterexample:
  "safeParse (schema (SignupSchema demo_ext))
      (JObj [(''email'', JStr ''ada@example.org''), (''password'', JStr ''longenough1''),
             (''passwordConfirm'', JStr ''longenough1''), (''firstname'', JStr ''Ada''),
             (''lastname'', JStr ''Lovelace''), (''phone'', JStr ''''),
             (''nationality'', JStr ''CZ''), (''schoolname'', JNull),
             (''dietary'', JStr ''Vegan''), (''otherInfo'', JNull)])
    = Inr (Success
      (JObj [(''email'', JStr ''ada@example.org''), (''password'', JStr ''longenough1''),
             (''passwordConfirm'', JStr ''longenough1''), (''firstname'', JStr ''Ada''),
             (''lastname'', JStr ''Lovelace''), (''phone'', JNull),
             (''birthdate'', JDate (Some 1674691200000)),
             (''nationality'', JStr ''CZ''), (''schoolname'', JNull),
             (''dietary'', JStr ''Vegan''), (''otherInfo'', JNull)]))
   \<and> safeParse (schema (SignupSchema demo_ext))
      (JObj [(''email'', JStr ''ada@example.org''), (''password'', JStr ''longenough1''),
             (''passwordConfirm'', JStr ''longenough1''), (''firstname'', JStr ''Ada''),
             (''lastname'', JStr ''Lovelace''),
             (''nationality'', JStr ''CZ''), (''schoolname'', JNull),
             (''dietary'', JStr ''Vegan''), (''otherInfo'', JNull)])
    = Inr (Failure [ZodIssue invalid_type [''phone''] None None []])"
  by (simp add: schema_def handleResult_def SignupSchema_def SignupShape_def
      demo_ext_def z_object_def get_prop_def zod_defs)

section \<open>The typed view of a parsed application\<close>

lemma number_entry:
  assumes "snd (z_number m cs p v) \<noteq> INVALID"
  shows "\<exists>n. object_entry (k, snd (z_number m cs p v), a) = [(k, JNum n)]"
  using assms by (cases v) (auto simp: z_number_def Let_def)

lemma string_entry:
  assumes "snd (z_string cs p v) \<noteq> INVALID"
  shows "\<exists>s. object_entry (k, snd (z_string cs p v), a) = [(k, JStr s)]"
  using assms by (cases v) (auto simp: z_string_def Let_def)

lemma delegation_entry:
  assumes "snd (preprocess f (nullable (z_number m cs)) p v) \<noteq> INVALID"
  shows "object_entry (k, snd (preprocess f (nullable (z_number m cs)) p v), a) = [(k, JNull)]
       \<or> (\<exists>n. object_entry (k, snd (preprocess f (nullable (z_number m cs)) p v), a) = [(k, JNum n)])"
  using assms by (cases "f v") (auto simp: preprocess_def nullable_def z_number_def Let_def)

lemma shirt_entry:
  assumes "snd (nullable (z_enum vs) p v) \<noteq> INVALID"
  shows "object_entry (k, snd (nullable (z_enum vs) p v), a) = [(k, JNull)]
       \<or> (\<exists>s. object_entry (k, snd (nullable (z_enum vs) p v), a) = [(k, JStr s)])"
  using assms by (cases v) (auto simp: nullable_def z_enum_def split: if_splits)

lemma mergeObjectSync_value:
  assumes "mergeObjectSync dirty acc pairs = r" and "r = OK x \<or> r = DIRTY x"
  shows "x = JObj (acc @ concat (map object_entry pairs))
       \<and> (\<forall>(k, r', a) \<in> set pairs. r' \<noteq> INVALID)"
proof -
  have v: "x = JObj (acc @ concat (map object_entry pairs))"
    using assms mergeObjectSync_OK [of dirty acc pairs x] mergeObjectSync_DIRTY [of dirty acc pairs x]
    by auto
  have "r' \<noteq> INVALID" if "(k, r', a) \<in> set pairs" for k r' a
    using that assms mergeObjectSync_INVALID [of k a pairs dirty acc] by auto
  with v show ?thesis by auto
qed

text \<open>
  Every value that the schema of the delegate application returns, valid or dirty, has
  the fields of the inferred type, so the refinement always gets a body: the branch of
  \<open>DelegateApply_refined\<close> for a value without such a view is never taken.
\<close>

lemma as_DelegateApply_defined:
  assumes "DelegateApply p input = (issues, r)" and "r = OK v \<or> r = DIRTY v"
  shows "\<exists>b. as_DelegateApply v = Some b"
proof (cases input)
  case (JObj data)
  let ?e = "\<lambda>k z. object_entry (k, snd (z (p @ [k]) (get_prop data k)), map_of data k \<noteq> None)"
  from assms(1) JObj have m: "mergeObjectSync False []
      (map (\<lambda>(key, kv). (key, snd (kv (p @ [key]) (get_prop data key)), map_of data key \<noteq> None))
        [(''userId'', z_number None []),
        (''motivation'',
           z_string [StrMax 4000 (Some ''Your motivation is too long''),
                     StrMin 10 (Some ''Please enter a short motivation'')]),
        (''experience'',
           z_string [StrMax 4000 (Some ''Your experience is too long''),
                     StrMin 10 (Some ''Please enter a short experience'')]),
        (''delegationId'',
           preprocess (\<lambda>val. if val = JNum (- 1) then JNull else val)
             (nullable (z_number None []))),
        (''choice1committee'',
           z_number (Some ''Please choose a committee'')
             [NumMin 0 (Some ''Please choose a committee'')]),
        (''choice1country'', z_string [StrMin 2 (Some ''Please choose a country'')]),
        (''choice2committee'',
           z_number (Some ''Please choose a committee'')
             [NumMin 0 (Some ''Please choose a committee'')]),
        (''choice2country'', z_string [StrMin 2 (Some ''Please choose a country'')]),
        (''choice3committee'',
           z_number (Some ''Please choose a committee'')
             [NumMin 0 (Some ''Please choose a committee'')]),
        (''choice3country'', z_string [StrMin 2 (Some ''Please choose a country'')]),
        (''shirtSize'', nullable (z_enum [''XS'', ''S'', ''M'', ''L'', ''XL'', ''XXL'']))]) = r"
    by (simp only: DelegateApply_def z_object_JObj prod.inject)
  note mv = mergeObjectSync_value [OF m assms(2)]
  from mv have ok: "snd (z_number None [] (p @ [''userId'']) (get_prop data ''userId'')) \<noteq> INVALID"
    "snd (z_string [StrMax 4000 (Some ''Your motivation is too long''),
                     StrMin 10 (Some ''Please enter a short motivation'')]
        (p @ [''motivation'']) (get_prop data ''motivation'')) \<noteq> INVALID"
    "snd (z_string [StrMax 4000 (Some ''Your experience is too long''),
                     StrMin 10 (Some ''Please enter a short experience'')]
        (p @ [''experience'']) (get_prop data ''experience'')) \<noteq> INVALID"
    "snd (preprocess (\<lambda>val. if val = JNum (- 1) then JNull else val)
             (nullable (z_number None [])) (p @ [''delegationId''])
             (get_prop data ''delegationId'')) \<noteq> INVALID"
    "snd (z_number (Some ''Please choose a committee'')
             [NumMin 0 (Some ''Please choose a committee'')] (p @ [''choice1committee''])
             (get_prop data ''choice1committee'')) \<noteq> INVALID"
    "snd (z_string [StrMin 2 (Some ''Please choose a country'')] (p @ [''choice1country''])
             (get_prop data ''choice1country'')) \<noteq> INVALID"
    "snd (z_number (Some ''Please choose a committee'')
             [NumMin 0 (Some ''Please choose a committee'')] (p @ [''choice2committee''])
             (get_prop data ''choice2committee'')) \<noteq> INVALID"
    "snd (z_string [StrMin 2 (Some ''Please choose a country'')] (p @ [''choice2country''])
             (get_prop data ''choice2country'')) \<noteq> INVALID"
    "snd (z_number (Some ''Please choose a committee'')
             [NumMin 0 (Some ''Please choose a committee'')] (p @ [''choice3committee''])
             (get_prop data ''choice3committee'')) \<noteq> INVALID"
    "snd (z_string [StrMin 2 (Some ''Please choose a country'')] (p @ [''choice3country''])
             (get_prop data ''choice3country'')) \<noteq> INVALID"
    "snd (nullable (z_enum [''XS'', ''S'', ''M'', ''L'', ''XL'', ''XXL'']) (p @ [''shirtSize''])
             (get_prop data ''shirtSize'')) \<noteq> INVALID"
    by simp_all
  from mv have x: "v = JObj (concat (map object_entry
      (map (\<lambda>(key, kv). (key, snd (kv (p @ [key]) (get_prop data key)), map_of data key \<noteq> None))
        [(''userId'', z_number None []),
        (''motivation'',
           z_string [StrMax 4000 (Some ''Your motivation is too long''),
                     StrMin 10 (Some ''Please enter a short motivation'')]),
        (''experience'',
           z_string [StrMax 4000 (Some ''Your experience is too long''),
                     StrMin 10 (Some ''Please enter a short experience'')]),
        (''delegationId'',
           preprocess (\<lambda>val. if val = JNum (- 1) then JNull else val)
             (nullable (z_number None []))),
        (''choice1committee'',
           z_number (Some ''Please choose a committee'')
             [NumMin 0 (Some ''Please choose a committee'')]),
        (''choice1country'', z_string [StrMin 2 (Some ''Please choose a country'')]),
        (''choice2committee'',
           z_number (Some ''Please choose a committee'')
             [NumMin 0 (Some ''Please choose a committee'')]),
        (''choice2country'', z_string [StrMin 2 (Some ''Please choose a country'')]),
        (''choice3committee'',
           z_number (Some ''Please choose a committee'')
             [NumMin 0 (Some ''Please choose a committee'')]),
        (''choice3country'', z_string [StrMin 2 (Some ''Please choose a country'')]),
        (''shirtSize'', nullable (z_enum [''XS'', ''S'', ''M'', ''L'', ''XL'', ''XXL'']))])))"
    by simp
  obtain n1 where e1: "?e ''userId'' (z_number None []) = [(''userId'', JNum n1)]"
    using number_entry [OF ok(1)] by blast
  obtain s2 where e2: "?e ''motivation'' (z_string [StrMax 4000 (Some ''Your motivation is too long''),
                     StrMin 10 (Some ''Please enter a short motivation'')]) = [(''motivation'', JStr s2)]"
    using string_entry [OF ok(2)] by blast
  obtain s3 where e3: "?e ''experience'' (z_string [StrMax 4000 (Some ''Your experience is too long''),
                     StrMin 10 (Some ''Please enter a short experience'')]) = [(''experience'', JStr s3)]"
    using string_entry [OF ok(3)] by blast
  obtain d4 where e4: "?e ''delegationId'' (preprocess (\<lambda>val. if val = JNum (- 1) then JNull else val)
             (nullable (z_number None []))) = [(''delegationId'', d4)]"
      and d4: "d4 = JNull \<or> (\<exists>n. d4 = JNum n)"
    using delegation_entry [OF ok(4)] by blast
  obtain n5 where e5: "?e ''choice1committee'' (z_number (Some ''Please choose a committee'')
             [NumMin 0 (Some ''Please choose a committee'')]) = [(''choice1committee'', JNum n5)]"
    using number_entry [OF ok(5)] by blast
  obtain s6 where e6: "?e ''choice1country'' (z_string [StrMin 2 (Some ''Please choose a country'')])
      = [(''choice1country'', JStr s6)]"
    using string_entry [OF ok(6)] by blast
  obtain n7 where e7: "?e ''choice2committee'' (z_number (Some ''Please choose a committee'')
             [NumMin 0 (Some ''Please choose a committee'')]) = [(''choice2committee'', JNum n7)]"
    using number_entry [OF ok(7)] by blast
  obtain s8 where e8: "?e ''choice2country'' (z_string [StrMin 2 (Some ''Please choose a country'')])
      = [(''choice2country'', JStr s8)]"
    using string_entry [OF ok(8)] by blast
  obtain n9 where e9: "?e ''choice3committee'' (z_number (Some ''Please choose a committee'')
             [NumMin 0 (Some ''Please choose a committee'')]) = [(''choice3committee'', JNum n9)]"
    using number_entry [OF ok(9)] by blast
  obtain s10 where e10: "?e ''choice3country'' (z_string [StrMin 2 (Some ''Please choose a country'')])
      = [(''choice3country'', JStr s10)]"
    using string_entry [OF ok(10)] by blast
  obtain h11 where e11: "?e ''shirtSize'' (nullable (z_enum [''XS'', ''S'', ''M'', ''L'', ''XL'', ''XXL'']))
      = [(''shirtSize'', h11)]"
      and h11: "h11 = JNull \<or> (\<exists>s. h11 = JStr s)"
    using shirt_entry [OF ok(11)] by blast
  have "v = JObj [(''userId'', JNum n1), (''motivation'', JStr s2), (''experience'', JStr s3),
        (''delegationId'', d4),
        (''choice1committee'', JNum n5), (''choice1country'', JStr s6),
        (''choice2committee'', JNum n7), (''choice2country'', JStr s8),
        (''choice3committee'', JNum n9), (''choice3country'', JStr s10),
        (''shirtSize'', h11)]"
    unfolding x using e1 e2 e3 e4 e5 e6 e7 e8 e9 e10 e11
    by (simp del: object_entry.simps)
  with as_DelegateApply_shape_valid [OF d4 h11] show ?thesis by blast
qed (use assms in \<open>auto simp: DelegateApply_def z_object_def\<close>)

end
